theory Spec2Isabelle
  imports Complex_Main
begin

section \<open>JavaScript values as the gateway sees them\<close>

text \<open>
  A JavaScript number is kept by its exact value (\<open>Fin q\<close>), with the three
  non-finite numbers beside it. Every binary64 number is such a rational; parsing rounds
  to binary64 (\<open>round64\<close>), and printing is stated on any rational and is
  JavaScript's on those that are binary64 numbers. Negative zero is not told apart from
  zero: every place of the gateway that could see one either replaces it
  (\<open>x || 0\<close>) or prints it the way it prints zero.
\<close>

datatype jsnum = Fin rat | NaN | PosInf | NegInf

text \<open>
  A spreadsheet cell, a field of a decoded token and a field of a request body are
  loosely typed scalars. \<open>JUndefined\<close> is what reading past the end of a row,
  or reading an absent field, gives.
\<close>

datatype jsval = JUndefined | JNull | JBool bool | JNum jsnum | JStr string

type_synonym row = "jsval list"

text \<open>The value handed to \<open>res.json\<close>: scalars, arrays and object literals.\<close>

datatype json = JV jsval | JArr "json list" | JObj "(string \<times> json) list"

record response =
  status :: nat
  body :: json

text \<open>A rejected promise of the spreadsheet or identity client: \<open>error.code\<close>
  (a number when the provider sets one) and \<open>error.message\<close>.\<close>

record api_error =
  err_code :: "nat option"
  err_message :: string

text \<open>The outcome of \<open>await sheets.spreadsheets.values.get(...)\<close>: a rejection,
  or a response whose \<open>data.values\<close> is absent (\<open>None\<close>) or an array of rows.\<close>

type_synonym sheet_read = "api_error + row list option"

subsection \<open>Operators\<close>

fun truthy :: "jsval \<Rightarrow> bool" where
  "truthy JUndefined = False"
| "truthy JNull = False"
| "truthy (JBool b) = b"
| "truthy (JNum (Fin q)) = (q \<noteq> 0)"
| "truthy (JNum NaN) = False"
| "truthy (JNum PosInf) = True"
| "truthy (JNum NegInf) = True"
| "truthy (JStr s) = (s \<noteq> [])"

text \<open>\<open>a || b\<close> and \<open>row[i]\<close>.\<close>

definition js_or :: "jsval \<Rightarrow> jsval \<Rightarrow> jsval" where
  "js_or a b = (if truthy a then a else b)"

definition idx :: "row \<Rightarrow> nat \<Rightarrow> jsval" where
  "idx r i = (if i < length r then r ! i else JUndefined)"

text \<open>\<open>a === b\<close>: same type and same value, and \<open>NaN\<close> equal to nothing.\<close>

fun strict_eq :: "jsval \<Rightarrow> jsval \<Rightarrow> bool" where
  "strict_eq JUndefined JUndefined = True"
| "strict_eq JNull JNull = True"
| "strict_eq (JBool a) (JBool b) = (a = b)"
| "strict_eq (JNum a) (JNum b) = (a \<noteq> NaN \<and> a = b)"
| "strict_eq (JStr a) (JStr b) = (a = b)"
| "strict_eq _ _ = False"

definition typeof_number :: "jsval \<Rightarrow> bool" where
  "typeof_number v = (case v of JNum _ \<Rightarrow> True | _ \<Rightarrow> False)"

definition isNaN_num :: "jsnum \<Rightarrow> bool" where
  "isNaN_num x = (x = NaN)"

text \<open>\<open>Array.prototype.findIndex\<close>: the first index whose element passes, or -1.\<close>

fun findIndex :: "('a \<Rightarrow> bool) \<Rightarrow> 'a list \<Rightarrow> int" where
  "findIndex p [] = - 1"
| "findIndex p (x # xs) =
     (if p x then 0 else (let i = findIndex p xs in if i = - 1 then - 1 else i + 1))"

text \<open>\<open>xs.slice(-n)\<close>: the last \<open>n\<close> elements, all of them when there are fewer.\<close>

definition slice_last :: "nat \<Rightarrow> 'a list \<Rightarrow> 'a list" where
  "slice_last n xs = drop (length xs - n) xs"

text \<open>\<open>s.split(c)\<close> for a one-character separator; the empty string gives one empty piece.\<close>

fun split_on :: "char \<Rightarrow> string \<Rightarrow> string list" where
  "split_on c [] = [[]]"
| "split_on c (x # xs) =
     (if x = c then [] # split_on c xs
      else (case split_on c xs of [] \<Rightarrow> [[x]] | w # ws \<Rightarrow> (x # w) # ws))"

definition nth_opt :: "'a list \<Rightarrow> nat \<Rightarrow> 'a option" where
  "nth_opt xs i = (if i < length xs then Some (xs ! i) else None)"

subsection \<open>Numbers: binary64 rounding, printing and parsing\<close>

definition pow_int :: "rat \<Rightarrow> int \<Rightarrow> rat" where
  "pow_int b e = (if 0 \<le> e then b ^ nat e else 1 / b ^ nat (- e))"

fun ilog :: "nat \<Rightarrow> nat \<Rightarrow> nat" where
  "ilog b n = (if b < 2 \<or> n < b then 0 else Suc (ilog b (n div b)))"

declare ilog.simps [simp del]

text \<open>For \<open>a > 0\<close>: the integer \<open>e\<close> with \<open>b ^ e \<le> a < b ^ (e + 1)\<close>.\<close>

definition floor_log :: "nat \<Rightarrow> rat \<Rightarrow> int" where
  "floor_log b a =
     (let (p, q) = quotient_of a;
          d = int (ilog b (nat p)) - int (ilog b (nat q))
      in if pow_int (of_nat b) d \<le> a then d else d - 1)"

definition round_half_even :: "rat \<Rightarrow> int" where
  "round_half_even r =
     (let f = \<lfloor>r\<rfloor>; d = r - of_int f
      in if d < 1 / 2 then f else if 1 / 2 < d then f + 1 else if even f then f else f + 1)"

text \<open>The binary64 number nearest to a rational, ties to even; overflow gives an infinity.\<close>

definition round64 :: "rat \<Rightarrow> jsnum" where
  "round64 q =
     (if q = 0 then Fin 0
      else let a = \<bar>q\<bar>;
               e = max (floor_log 2 a) (- 1022);
               quantum = pow_int 2 (e - 52);
               r = of_int (round_half_even (a / quantum)) * quantum
           in if 2 ^ 1024 \<le> r then (if q < 0 then NegInf else PosInf)
              else Fin (if q < 0 then - r else r))"

definition digit_char :: "nat \<Rightarrow> char" where
  "digit_char d = ''0123456789'' ! (d mod 10)"

fun dec_digits :: "nat \<Rightarrow> string" where
  "dec_digits n = (if n < 10 then [digit_char n] else dec_digits (n div 10) @ [digit_char (n mod 10)])"

declare dec_digits.simps [simp del]

text \<open>
  \<open>Number::toString\<close> picks the fewest digits \<open>k\<close> (at most 17) for which some
  \<open>s\<close> of \<open>k\<close> digits and some \<open>n\<close> give back the number, \<open>s * 10 ^ (n - k)\<close>
  rounding to it; of two such \<open>s\<close> the nearer one, the even one on a tie. The search
  returns \<open>(s, n)\<close> with \<open>s\<close> of exactly \<open>k\<close> digits.
\<close>

definition digits_at :: "rat \<Rightarrow> int \<Rightarrow> nat \<Rightarrow> (nat \<times> int) option" where
  "digits_at a n0 k =
     (let scale = pow_int 10 (n0 - int k);
          lo = nat \<lfloor>a / scale\<rfloor>;
          hi = lo + 1;
          ok = (\<lambda>s. round64 (of_nat s * scale) = round64 a);
          dlo = \<bar>of_nat lo * scale - a\<bar>;
          dhi = \<bar>of_nat hi * scale - a\<bar>;
          norm = (\<lambda>s. if s = 10 ^ k then (s div 10, n0 + 1) else (s, n0))
      in if ok lo \<and> ok hi then
           Some (norm (if dlo < dhi then lo else if dhi < dlo then hi else if even lo then lo else hi))
         else if ok lo then Some (norm lo)
         else if ok hi then Some (norm hi)
         else None)"

fun shortest_digits :: "rat \<Rightarrow> int \<Rightarrow> nat \<Rightarrow> nat \<Rightarrow> nat \<times> int" where
  "shortest_digits a n0 k 0 = (nat \<lfloor>a / pow_int 10 (n0 - int k)\<rfloor>, n0)"
| "shortest_digits a n0 k (Suc fuel) =
     (case digits_at a n0 k of Some r \<Rightarrow> r | None \<Rightarrow> shortest_digits a n0 (Suc k) fuel)"

definition positive_toString :: "rat \<Rightarrow> string" where
  "positive_toString a =
     (let (s, n) = shortest_digits a (floor_log 10 a + 1) 1 17;
          ds = dec_digits s;
          k = int (length ds);
          ex = (if 0 \<le> n - 1 then ''e+'' else ''e-'') @ dec_digits (nat \<bar>n - 1\<bar>)
      in if k \<le> n \<and> n \<le> 21 then ds @ replicate (nat (n - k)) CHR ''0''
         else if 0 < n \<and> n \<le> 21 then take (nat n) ds @ ''.'' @ drop (nat n) ds
         else if - 6 < n \<and> n \<le> 0 then ''0.'' @ replicate (nat (- n)) CHR ''0'' @ ds
         else if k = 1 then ds @ ex
         else take 1 ds @ ''.'' @ drop 1 ds @ ex)"

definition Number_toString :: "jsnum \<Rightarrow> string" where
  "Number_toString x =
     (case x of
        NaN \<Rightarrow> ''NaN''
      | PosInf \<Rightarrow> ''Infinity''
      | NegInf \<Rightarrow> ''-Infinity''
      | Fin q \<Rightarrow>
          if q = 0 then ''0''
          else if q < 0 then ''-'' @ positive_toString (- q)
          else positive_toString q)"

text \<open>
  \<open>x.toFixed(f)\<close>: a non-finite number prints as itself, a number of magnitude
  \<open>10 ^ 21\<close> or more prints as \<open>toString\<close> does, and any other one prints the
  integer nearest to \<open>x * 10 ^ f\<close> (the larger on a tie) with a point before its
  last \<open>f\<close> digits.
\<close>

definition toFixed :: "nat \<Rightarrow> jsnum \<Rightarrow> string" where
  "toFixed f x =
     (case x of
        Fin q \<Rightarrow>
          (let a = \<bar>q\<bar>;
               sign = (if q < 0 then ''-'' else '''')
           in if 10 ^ 21 \<le> a then sign @ positive_toString a
              else let n = nat \<lfloor>a * 10 ^ f + 1 / 2\<rfloor>;
                       m = dec_digits n;
                       m' = (if f \<noteq> 0 \<and> length m \<le> f
                             then replicate (f + 1 - length m) CHR ''0'' @ m else m)
                   in if f = 0 then sign @ m'
                      else sign @ take (length m' - f) m' @ ''.'' @ drop (length m' - f) m')
      | _ \<Rightarrow> Number_toString x)"

text \<open>\<open>Math.round\<close>: the nearest integer, the larger one on a tie.\<close>

definition Math_round :: "jsnum \<Rightarrow> jsnum" where
  "Math_round x = (case x of Fin q \<Rightarrow> Fin (of_int \<lfloor>q + 1 / 2\<rfloor>) | _ \<Rightarrow> x)"

text \<open>\<open>String(v)\<close>, which \<open>parseFloat\<close> and \<open>toString\<close> apply to a scalar.\<close>

definition js_toString :: "jsval \<Rightarrow> string" where
  "js_toString v =
     (case v of
        JUndefined \<Rightarrow> ''undefined''
      | JNull \<Rightarrow> ''null''
      | JBool b \<Rightarrow> (if b then ''true'' else ''false'')
      | JNum x \<Rightarrow> Number_toString x
      | JStr s \<Rightarrow> s)"

text \<open>\<open>v?.toString()\<close>: \<open>undefined\<close> for \<open>undefined\<close> and \<open>null\<close>.\<close>

definition opt_toString :: "jsval \<Rightarrow> jsval" where
  "opt_toString v =
     (case v of JUndefined \<Rightarrow> JUndefined | JNull \<Rightarrow> JUndefined | _ \<Rightarrow> JStr (js_toString v))"

text \<open>
  \<open>parseFloat\<close>: leading white space is skipped, then the longest prefix that is a
  decimal literal is read: a sign, then \<open>Infinity\<close> or digits with an optional
  fraction and an optional exponent. No such prefix gives \<open>NaN\<close>. A string is the
  list of the bytes of its UTF-8 encoding, so JavaScript's white space is the six
  one-byte characters and the encodings of U+00A0, U+1680, U+2000 to U+200A, U+2028,
  U+2029, U+202F, U+205F, U+3000 and U+FEFF.
\<close>

definition is_digit :: "char \<Rightarrow> bool" where
  "is_digit c = (c \<in> set ''0123456789'')"

definition is_space :: "char \<Rightarrow> bool" where
  "is_space c = (c \<in> set [CHR '' '', CHR 0x09, CHR 0x0A, CHR 0x0B, CHR 0x0C, CHR 0x0D])"

text \<open>The number of bytes of the white space character a string starts with, 0 when it
  starts with none.\<close>

definition white_space_length :: "string \<Rightarrow> nat" where
  "white_space_length s =
     (case s of
        [] \<Rightarrow> 0
      | c # cs \<Rightarrow>
          if is_space c then 1
          else if c = CHR 0xC2 \<and> take 1 cs = [CHR 0xA0] then 2
          else if c = CHR 0xE1 \<and> take 2 cs = [CHR 0x9A, CHR 0x80] then 3
          else if c = CHR 0xE2 \<and> take 1 cs = [CHR 0x80] \<and>
                  (case drop 1 cs of
                     [] \<Rightarrow> False
                   | d # _ \<Rightarrow> d \<in> set [CHR 0x80, CHR 0x81, CHR 0x82, CHR 0x83, CHR 0x84, CHR 0x85,
                                          CHR 0x86, CHR 0x87, CHR 0x88, CHR 0x89, CHR 0x8A,
                                          CHR 0xA8, CHR 0xA9, CHR 0xAF]) then 3
          else if c = CHR 0xE2 \<and> take 2 cs = [CHR 0x81, CHR 0x9F] then 3
          else if c = CHR 0xE3 \<and> take 2 cs = [CHR 0x80, CHR 0x80] then 3
          else if c = CHR 0xEF \<and> take 2 cs = [CHR 0xBB, CHR 0xBF] then 3
          else 0)"

fun skip_space :: "nat \<Rightarrow> string \<Rightarrow> string" where
  "skip_space 0 s = s"
| "skip_space (Suc fuel) s =
     (if white_space_length s = 0 then s else skip_space fuel (drop (white_space_length s) s))"

text \<open>Each step drops at least one byte, so the length of the string is fuel enough.\<close>

definition trim_start :: "string \<Rightarrow> string" where
  "trim_start s = skip_space (length s) s"

definition digit_val :: "char \<Rightarrow> nat" where
  "digit_val c = of_char c - 48"

definition digits_val :: "string \<Rightarrow> nat" where
  "digits_val ds = foldl (\<lambda>n c. 10 * n + digit_val c) 0 ds"

definition exponent_part :: "string \<Rightarrow> int" where
  "exponent_part s =
     (case s of
        [] \<Rightarrow> 0
      | e # rest \<Rightarrow>
          if e = CHR ''e'' \<or> e = CHR ''E'' then
            (let neg = (case rest of [] \<Rightarrow> False | c # _ \<Rightarrow> c = CHR ''-'');
                 signed = (case rest of [] \<Rightarrow> False | c # _ \<Rightarrow> c = CHR ''-'' \<or> c = CHR ''+'');
                 ds = takeWhile is_digit (if signed then tl rest else rest)
             in if ds = [] then 0
                else if neg then - int (digits_val ds) else int (digits_val ds))
          else 0)"

definition unsigned_literal :: "string \<Rightarrow> jsnum option" where
  "unsigned_literal s =
     (if take 8 s = ''Infinity'' then Some PosInf
      else let ip = takeWhile is_digit s;
               r1 = dropWhile is_digit s;
               dotted = (case r1 of [] \<Rightarrow> False | c # _ \<Rightarrow> c = CHR ''.'');
               fp = (if dotted then takeWhile is_digit (tl r1) else []);
               r2 = (if dotted then dropWhile is_digit (tl r1) else r1)
           in if ip = [] \<and> fp = [] then None
              else Some (round64 (of_nat (digits_val (ip @ fp))
                                   * pow_int 10 (exponent_part r2 - int (length fp)))))"

definition negate :: "jsnum \<Rightarrow> jsnum" where
  "negate x = (case x of Fin q \<Rightarrow> Fin (- q) | NaN \<Rightarrow> NaN | PosInf \<Rightarrow> NegInf | NegInf \<Rightarrow> PosInf)"

definition parseFloat_str :: "string \<Rightarrow> jsnum" where
  "parseFloat_str s =
     (let t = trim_start s;
          neg = (case t of [] \<Rightarrow> False | c # _ \<Rightarrow> c = CHR ''-'');
          signed = (case t of [] \<Rightarrow> False | c # _ \<Rightarrow> c = CHR ''-'' \<or> c = CHR ''+'')
      in case unsigned_literal (if signed then tl t else t) of
           None \<Rightarrow> NaN
         | Some x \<Rightarrow> (if neg then negate x else x))"

definition parseFloat :: "jsval \<Rightarrow> jsnum" where
  "parseFloat v = parseFloat_str (js_toString v)"

section \<open>The services around the gateway\<close>

text \<open>
  What \<open>admin.auth().verifyIdToken\<close> resolves to. The claims the gateway reads are
  \<open>uid\<close>, \<open>email\<close>, \<open>name\<close> and \<open>phone_number\<close>; the last three may be absent.
\<close>

record decoded_token =
  tok_uid :: string
  tok_email :: "string option"
  tok_name :: "string option"
  tok_phone_number :: "string option"

definition of_opt :: "string option \<Rightarrow> jsval" where
  "of_opt x = (case x of None \<Rightarrow> JUndefined | Some s \<Rightarrow> JStr s)"

text \<open>
  The identity provider, the spreadsheet's reading of typed-in text and the process
  environment are outside the repository, so the gateway takes them as given:
  \<open>verifyIdToken\<close> and \<open>createCustomToken\<close> return \<open>None\<close> when their promise
  rejects, and \<open>user_entered\<close> is the cell that a string written with
  \<open>valueInputOption: 'USER_ENTERED'\<close> later reads back as.
\<close>

record env =
  verifyIdToken :: "string \<Rightarrow> decoded_token option"
  createCustomToken :: "string \<Rightarrow> string option"
  user_entered :: "string \<Rightarrow> jsval"
  NODE_ENV :: "string option"

text \<open>\<open>req.user\<close> and the \<open>userData\<close> argument of the upsert; an absent field is
  \<open>JUndefined\<close>.\<close>

record user_data =
  email :: jsval
  displayName :: jsval
  phoneNumber :: jsval
  uid :: jsval

record request =
  authorization :: "string option"
  req_body :: "(string \<times> jsval) list"

definition field :: "(string \<times> jsval) list \<Rightarrow> string \<Rightarrow> jsval" where
  "field obj k = (case map_of obj k of None \<Rightarrow> JUndefined | Some v \<Rightarrow> v)"

subsection \<open>The response cache\<close>

text \<open>
  \<open>new NodeCache({ stdTTL: 30 })\<close>: an entry keeps its value \<open>v\<close> and the time
  \<open>t\<close> (milliseconds) at which it stops being served, 0 for never. \<open>get\<close> misses on
  an absent key and on an entry with \<open>t \<noteq> 0\<close> and \<open>t < Date.now()\<close>, which it
  deletes; \<open>set\<close> with a time-to-live in seconds stores \<open>Date.now() + ttl * 1000\<close>.
\<close>

record cache_entry =
  entry_v :: json
  entry_t :: nat

type_synonym node_cache = "string \<rightharpoonup> cache_entry"

definition cache_get :: "nat \<Rightarrow> string \<Rightarrow> node_cache \<Rightarrow> json option \<times> node_cache" where
  "cache_get now key c =
     (case c key of
        None \<Rightarrow> (None, c)
      | Some e \<Rightarrow>
          if entry_t e \<noteq> 0 \<and> entry_t e < now then (None, c(key := None))
          else (Some (entry_v e), c))"

definition cache_set :: "nat \<Rightarrow> string \<Rightarrow> json \<Rightarrow> nat \<Rightarrow> node_cache \<Rightarrow> node_cache" where
  "cache_set now key v ttl c =
     c(key \<mapsto> \<lparr>entry_v = v, entry_t = (if ttl = 0 then 0 else now + ttl * 1000)\<rparr>)"

fun truthy_json :: "json \<Rightarrow> bool" where
  "truthy_json (JV v) = truthy v"
| "truthy_json (JArr _) = True"
| "truthy_json (JObj _) = True"

text \<open>\<open>if (cachedData)\<close>: the value when there is one and it is truthy.\<close>

definition if_cached :: "json option \<Rightarrow> json option" where
  "if_cached x = (case x of None \<Rightarrow> None | Some v \<Rightarrow> if truthy_json v then Some v else None)"

subsection \<open>The state a request runs against\<close>

text \<open>
  The cache of the process, the rows of \<open>User-Balance!A2:G\<close> as a read renders them,
  and two counters that no code reads: the spreadsheet reads and appends issued so far.
\<close>

record world =
  cache :: node_cache
  user_balance :: "row list"
  sheet_reads :: nat
  sheet_appends :: nat

text \<open>Issuing a read whose outcome is \<open>r\<close>.\<close>

definition values_get :: "sheet_read \<Rightarrow> world \<Rightarrow> sheet_read \<times> world" where
  "values_get r w = (r, w\<lparr>sheet_reads := sheet_reads w + 1\<rparr>)"

text \<open>A read of the balance sheet: the rejection \<open>fault\<close> when there is one, else the
  rows, \<open>values\<close> being absent when the range is empty.\<close>

definition balance_read :: "api_error option \<Rightarrow> world \<Rightarrow> sheet_read" where
  "balance_read fault w =
     (case fault of
        Some e \<Rightarrow> Inl e
      | None \<Rightarrow> Inr (if user_balance w = [] then None else Some (user_balance w)))"

text \<open>A cell as the sheet keeps it when written as user-entered: a number or a boolean
  as it is, a string as the sheet reads it, nothing as an empty cell.\<close>

definition store_cell :: "env \<Rightarrow> jsval \<Rightarrow> jsval" where
  "store_cell E c =
     (case c of
        JStr s \<Rightarrow> user_entered E s
      | JUndefined \<Rightarrow> JStr []
      | JNull \<Rightarrow> JStr []
      | _ \<Rightarrow> c)"

text \<open>\<open>values.append\<close> with \<open>INSERT_ROWS\<close>: a rejection \<open>fault\<close> writes
  nothing, otherwise the row goes below the last one.\<close>

definition values_append :: "env \<Rightarrow> api_error option \<Rightarrow> row \<Rightarrow> world \<Rightarrow> (api_error + unit) \<times> world" where
  "values_append E fault r w =
     (case fault of
        Some e \<Rightarrow> (Inl e, w\<lparr>sheet_appends := sheet_appends w + 1\<rparr>)
      | None \<Rightarrow>
          (Inr (), w\<lparr>user_balance := user_balance w @ [map (store_cell E) r],
                       sheet_appends := sheet_appends w + 1\<rparr>))"

section \<open>The gateway (the variant with federated login and the balance sheet)\<close>

definition respond :: "nat \<Rightarrow> json \<Rightarrow> response" where
  "respond code b = \<lparr>status = code, body = b\<rparr>"

definition json_error :: "string \<Rightarrow> json" where
  "json_error m = JObj [(''error'', JV (JStr m))]"

definition str_at :: "string list \<Rightarrow> nat \<Rightarrow> jsval" where
  "str_at ps i = (case nth_opt ps i of None \<Rightarrow> JUndefined | Some p \<Rightarrow> JStr p)"

text \<open>\<open>authHeader && authHeader.split(' ')[1]\<close>\<close>

definition bearer_token :: "string option \<Rightarrow> jsval" where
  "bearer_token authHeader =
     (case authHeader of
        None \<Rightarrow> JUndefined
      | Some h \<Rightarrow> if h = [] then JStr [] else str_at (split_on CHR '' '' h) 1)"

text \<open>The verifier applied to a value: only a string can be a valid token.\<close>

definition verify_value :: "env \<Rightarrow> jsval \<Rightarrow> decoded_token option" where
  "verify_value E v = (case v of JStr t \<Rightarrow> verifyIdToken E t | _ \<Rightarrow> None)"

text \<open>
  \<open>authenticateToken\<close>: \<open>Inl\<close> is the response it sends itself, \<open>Inr\<close> is
  \<open>req.user\<close> when it calls \<open>next()\<close>. A token with neither a name nor an email
  makes \<open>decodedToken.email.split\<close> throw, which the \<open>catch\<close> answers with 403.
\<close>

definition authenticateToken :: "env \<Rightarrow> request \<Rightarrow> response + user_data" where
  "authenticateToken E req =
     (let token = bearer_token (authorization req)
      in if \<not> truthy token then Inl (respond 401 (json_error ''No token provided''))
         else case verify_value E token of
                None \<Rightarrow> Inl (respond 403 (json_error ''Invalid token''))
              | Some decodedToken \<Rightarrow>
                  if truthy (of_opt (tok_name decodedToken)) then
                    Inr \<lparr>email = of_opt (tok_email decodedToken),
                         displayName = of_opt (tok_name decodedToken),
                         phoneNumber = JUndefined,
                         uid = JStr (tok_uid decodedToken)\<rparr>
                  else case tok_email decodedToken of
                         None \<Rightarrow> Inl (respond 403 (json_error ''Invalid token''))
                       | Some e \<Rightarrow>
                           Inr \<lparr>email = JStr e,
                                displayName = str_at (split_on CHR ''@'' e) 0,
                                phoneNumber = JUndefined,
                                uid = JStr (tok_uid decodedToken)\<rparr>)"

text \<open>\<open>app.get(path, authenticateToken, handler)\<close>\<close>

definition protected ::
  "env \<Rightarrow> (user_data \<Rightarrow> world \<Rightarrow> response \<times> world) \<Rightarrow> request \<Rightarrow> world \<Rightarrow> response \<times> world" where
  "protected E handler req w =
     (case authenticateToken E req of Inl r \<Rightarrow> (r, w) | Inr user \<Rightarrow> handler user w)"

subsection \<open>The balance-sheet upsert\<close>

definition newRow :: "user_data \<Rightarrow> row" where
  "newRow userData =
     [js_or (displayName userData) (JStr []),
      email userData,
      js_or (phoneNumber userData) (JStr []),
      JNum (Fin 0),
      JNum (Fin 0),
      JNum (Fin 0),
      JNum (Fin 0)]"

text \<open>
  \<open>updateUserBalanceSheet\<close> awaits its read of the sheet and then its append, and
  other requests run during each await. It is given in two halves: up to the first await,
  where the read is issued and takes the rows as they are then
  (\<open>updateUserBalanceSheet_begin\<close>), and from the settled read on
  (\<open>updateUserBalanceSheet_resume\<close>), on the sheet as other requests have left it
  meanwhile. \<open>Inl m\<close> is the \<open>Error\<close> with message \<open>m\<close> that the function
  throws; \<open>get_fault\<close> and \<open>append_fault\<close> are the rejections, if any, of its two
  spreadsheet calls.
\<close>

definition updateUserBalanceSheet_begin :: "api_error option \<Rightarrow> world \<Rightarrow> sheet_read \<times> world" where
  "updateUserBalanceSheet_begin get_fault w = values_get (balance_read get_fault w) w"

definition updateUserBalanceSheet_resume ::
  "env \<Rightarrow> api_error option \<Rightarrow> user_data \<Rightarrow> sheet_read \<Rightarrow> world \<Rightarrow> (string + unit) \<times> world" where
  "updateUserBalanceSheet_resume E append_fault userData response w =
     (case response of
        Inl error \<Rightarrow> (Inl (''Failed to update sheet: '' @ err_message error), w)
      | Inr vs \<Rightarrow>
          (let existingData = (case vs of None \<Rightarrow> [] | Some rows \<Rightarrow> rows);
               userIndex = findIndex (\<lambda>row. strict_eq (idx row 1) (email userData)) existingData
           in if userIndex = - 1 then
                (case values_append E append_fault (newRow userData) w of
                   (Inl error, w2) \<Rightarrow> (Inl (''Failed to update sheet: '' @ err_message error), w2)
                 | (Inr _, w2) \<Rightarrow> (Inr (), w2))
              else (Inr (), w)))"

text \<open>One call with nothing else running between its two halves.\<close>

definition updateUserBalanceSheet ::
  "env \<Rightarrow> api_error option \<Rightarrow> api_error option \<Rightarrow> user_data \<Rightarrow> world \<Rightarrow> (string + unit) \<times> world" where
  "updateUserBalanceSheet E get_fault append_fault userData w =
     (case updateUserBalanceSheet_begin get_fault w of
        (response, w1) \<Rightarrow> updateUserBalanceSheet_resume E append_fault userData response w1)"

definition token_json :: "decoded_token \<Rightarrow> json" where
  "token_json d =
     JObj [(''uid'', JV (JStr (tok_uid d))), (''email'', JV (of_opt (tok_email d))),
           (''name'', JV (of_opt (tok_name d))), (''phone_number'', JV (of_opt (tok_phone_number d)))]"

text \<open>\<open>POST /api/login/google\<close>\<close>

definition login_google ::
  "env \<Rightarrow> api_error option \<Rightarrow> api_error option \<Rightarrow> request \<Rightarrow> world \<Rightarrow> response \<times> world" where
  "login_google E get_fault append_fault req w =
     (let idToken = field (req_body req) ''idToken''
      in if \<not> truthy idToken then (respond 400 (json_error ''No ID token provided''), w)
         else case verify_value E idToken of
                None \<Rightarrow> (respond 500 (json_error ''Failed to authenticate with Google''), w)
              | Some decodedToken \<Rightarrow>
                  (case updateUserBalanceSheet E get_fault append_fault
                          \<lparr>email = of_opt (tok_email decodedToken),
                           displayName = of_opt (tok_name decodedToken),
                           phoneNumber = of_opt (tok_phone_number decodedToken),
                           uid = JUndefined\<rparr> w of
                     (Inl _, w1) \<Rightarrow> (respond 500 (json_error ''Failed to authenticate with Google''), w1)
                   | (Inr _, w1) \<Rightarrow>
                       (case createCustomToken E (tok_uid decodedToken) of
                          None \<Rightarrow> (respond 500 (json_error ''Failed to authenticate with Google''), w1)
                        | Some customToken \<Rightarrow>
                            (respond 200 (JObj [(''token'', JV (JStr customToken)),
                                                (''user'', token_json decodedToken)]), w1))))"

text \<open>\<open>POST /api/signup\<close>\<close>

definition signup_handler ::
  "env \<Rightarrow> api_error option \<Rightarrow> api_error option \<Rightarrow> request \<Rightarrow> user_data \<Rightarrow> world \<Rightarrow> response \<times> world" where
  "signup_handler E get_fault append_fault req user w =
     (if \<not> strict_eq (email user) (field (req_body req) ''email'') then
        (respond 403 (JObj [(''success'', JV (JBool False)),
                            (''message'', JV (JStr ''Token email does not match provided email''))]), w)
      else case updateUserBalanceSheet E get_fault append_fault
                  \<lparr>email = field (req_body req) ''email'',
                   displayName = field (req_body req) ''displayName'',
                   phoneNumber = field (req_body req) ''phoneNumber'',
                   uid = uid user\<rparr> w of
             (Inl m, w1) \<Rightarrow>
               (respond 500 (JObj [(''success'', JV (JBool False)),
                                   (''message'', JV (JStr ''Internal server error'')),
                                   (''details'', JV (JStr m))]), w1)
           | (Inr _, w1) \<Rightarrow>
               (respond 200 (JObj [(''success'', JV (JBool True)),
                                   (''message'', JV (JStr ''User created successfully''))]), w1))"

definition signup ::
  "env \<Rightarrow> api_error option \<Rightarrow> api_error option \<Rightarrow> request \<Rightarrow> world \<Rightarrow> response \<times> world" where
  "signup E get_fault append_fault req w =
     protected E (signup_handler E get_fault append_fault req) req w"

subsection \<open>The reading endpoints\<close>

definition user_json :: "user_data \<Rightarrow> json" where
  "user_json u =
     JObj [(''email'', JV (email u)), (''displayName'', JV (displayName u)), (''uid'', JV (uid u))]"

text \<open>\<open>GET /api/verify-token\<close>\<close>

definition verify_token :: "env \<Rightarrow> request \<Rightarrow> world \<Rightarrow> response \<times> world" where
  "verify_token E req w =
     protected E (\<lambda>user w'. (respond 200 (JObj [(''success'', JV (JBool True)),
                                                  (''user'', user_json user)]), w')) req w"

text \<open>
  \<open>GET /api/performance-data\<close>. The handler runs up to its \<open>await\<close>
  (\<open>performance_data_begin\<close>: the cache lookup, then the read is issued and no
  response given yet), and again from it when the read has settled
  (\<open>performance_data_resume\<close>), at a later clock reading and on the cache as other
  requests have left it meanwhile. \<open>sheets\<close> is set when the module loads, so the
  call of \<open>initializeGoogleSheets\<close> is never reached.
\<close>

definition formattedResult :: "row \<Rightarrow> json" where
  "formattedResult vs =
     JObj [(''thisWeek'', JV (JStr (toFixed 2 (parseFloat (js_or (idx vs 0) (JNum (Fin 0))))))),
           (''lastWeek'', JV (JStr (toFixed 2 (parseFloat (js_or (idx vs 2) (JNum (Fin 0))))))),
           (''monthly'', JV (JNum (Math_round (parseFloat (js_or (idx vs 4) (JNum (Fin 0))))))),
           (''yearly'', JV (JNum (Math_round (parseFloat (js_or (idx vs 6) (JNum (Fin 0)))))))]"

definition performance_data_begin :: "nat \<Rightarrow> world \<Rightarrow> (json option \<times> response option) \<times> world" where
  "performance_data_begin now w =
     (case cache_get now ''performance-data'' (cache w) of
        (cachedData, c) \<Rightarrow>
          (case if_cached cachedData of
             Some v \<Rightarrow> ((cachedData, Some (respond 200 v)), w\<lparr>cache := c\<rparr>)
           | None \<Rightarrow> ((cachedData, None), w\<lparr>cache := c, sheet_reads := sheet_reads w + 1\<rparr>)))"

text \<open>The \<open>catch\<close> block.\<close>

definition performance_data_catch :: "string \<Rightarrow> nat \<Rightarrow> world \<Rightarrow> response \<times> world" where
  "performance_data_catch message now w =
     (case cache_get now ''performance-data'' (cache w) of
        (cachedData, c) \<Rightarrow>
          (case if_cached cachedData of
             Some v \<Rightarrow> (respond 200 v, w\<lparr>cache := c\<rparr>)
           | None \<Rightarrow>
               (respond 500 (JObj [(''error'', JV (js_or (JStr message)
                                                     (JStr ''Failed to fetch performance data'')))]),
                w\<lparr>cache := c\<rparr>)))"

definition performance_data_resume ::
  "json option \<Rightarrow> sheet_read \<Rightarrow> nat \<Rightarrow> world \<Rightarrow> response \<times> world" where
  "performance_data_resume cachedData r now w =
     (case r of
        Inl error \<Rightarrow> performance_data_catch (err_message error) now w
      | Inr vs \<Rightarrow>
          (case vs of
             Some (values0 # _) \<Rightarrow>
               (respond 200 (formattedResult values0),
                w\<lparr>cache := cache_set now ''performance-data'' (formattedResult values0) 30 (cache w)\<rparr>)
           | _ \<Rightarrow>
               (case if_cached cachedData of
                  Some v \<Rightarrow> (respond 200 v, w)
                | None \<Rightarrow> performance_data_catch ''No data found in spreadsheet'' now w)))"

text \<open>One request served with nothing else running between its two halves.\<close>

definition performance_data_handler ::
  "nat \<Rightarrow> sheet_read \<Rightarrow> nat \<Rightarrow> user_data \<Rightarrow> world \<Rightarrow> response \<times> world" where
  "performance_data_handler t0 r t1 user w =
     (case performance_data_begin t0 w of
        ((cachedData, Some res), w1) \<Rightarrow> (res, w1)
      | ((cachedData, None), w1) \<Rightarrow> performance_data_resume cachedData r t1 w1)"

definition performance_data ::
  "env \<Rightarrow> nat \<Rightarrow> sheet_read \<Rightarrow> nat \<Rightarrow> request \<Rightarrow> world \<Rightarrow> response \<times> world" where
  "performance_data E t0 r t1 req w = protected E (performance_data_handler t0 r t1) req w"

text \<open>\<open>GET /api/trade-history\<close>: the objects the \<open>map\<close> builds, and the test of the
  second \<open>filter\<close>.\<close>

record trade =
  timestamp :: jsval
  symbol :: jsval
  direction :: jsval
  pnl :: jsval

definition shape_trade :: "row \<Rightarrow> trade" where
  "shape_trade row =
     \<lparr>timestamp = idx row 0,
      symbol = js_or (opt_toString (idx row 1)) (JStr ''GOLD''),
      direction = js_or (opt_toString (idx row 2)) (JStr ''BUY''),
      pnl = (let p = parseFloat (js_or (idx row 3) (JNum (Fin 0)))
             in JNum (if isNaN_num p then Fin 0 else p))\<rparr>"

definition valid_trade :: "trade \<Rightarrow> bool" where
  "valid_trade t =
     (truthy (timestamp t) \<and> truthy (symbol t) \<and> truthy (direction t) \<and> typeof_number (pnl t))"

definition trade_json :: "trade \<Rightarrow> json" where
  "trade_json t =
     JObj [(''timestamp'', JV (timestamp t)), (''symbol'', JV (symbol t)),
           (''direction'', JV (direction t)), (''pnl'', JV (pnl t))]"

definition trade_history_handler ::
  "env \<Rightarrow> sheet_read \<Rightarrow> user_data \<Rightarrow> world \<Rightarrow> response \<times> world" where
  "trade_history_handler E r user w =
     (case values_get r w of
        (Inl error, w1) \<Rightarrow>
          (respond 500 (JObj [(''error'', JV (JStr ''Failed to fetch trade history'')),
                              (''details'', JV (if NODE_ENV E = Some ''development''
                                                then JStr (err_message error) else JUndefined))]), w1)
      | (Inr None, w1) \<Rightarrow> (respond 200 (JArr []), w1)
      | (Inr (Some vs), w1) \<Rightarrow>
          (respond 200
             (JArr (map trade_json
                (rev (filter valid_trade (map shape_trade (filter (\<lambda>row. 4 \<le> length row) vs)))))),
           w1))"

definition trade_history :: "env \<Rightarrow> sheet_read \<Rightarrow> request \<Rightarrow> world \<Rightarrow> response \<times> world" where
  "trade_history E r req w = protected E (trade_history_handler E r) req w"

text \<open>\<open>GET /api/pnl-data\<close> (the one-second pause before the read changes nothing here).\<close>

definition pnl_point :: "row \<Rightarrow> json" where
  "pnl_point row =
     JObj [(''date'', JV (idx row 0)),
           (''pnl'', JV (JStr (toFixed 2 (parseFloat (js_or (idx row 3) (JNum (Fin 0)))))))]"

definition pnl_data_handler :: "sheet_read \<Rightarrow> user_data \<Rightarrow> world \<Rightarrow> response \<times> world" where
  "pnl_data_handler r user w =
     (case values_get r w of
        (Inl error, w1) \<Rightarrow>
          (respond (if err_code error = Some 429 then 429 else 500)
             (json_error (if err_code error = Some 429 then ''Rate limit exceeded''
                          else ''Internal server error'')), w1)
      | (Inr None, w1) \<Rightarrow> (respond 200 (JArr []), w1)
      | (Inr (Some vs), w1) \<Rightarrow>
          (respond 200
             (JArr (slice_last 20
                (map pnl_point
                   (filter (\<lambda>row. truthy (idx row 0) \<and> \<not> strict_eq (idx row 3) JUndefined) vs)))),
           w1))"

definition pnl_data :: "env \<Rightarrow> sheet_read \<Rightarrow> request \<Rightarrow> world \<Rightarrow> response \<times> world" where
  "pnl_data E r req w = protected E (pnl_data_handler r) req w"

text \<open>\<open>GET /api/wallet-data\<close>; \<open>opt_idx\<close> is \<open>userData?.[i]\<close>.\<close>

definition opt_idx :: "row option \<Rightarrow> nat \<Rightarrow> jsval" where
  "opt_idx r i = (case r of None \<Rightarrow> JUndefined | Some cells \<Rightarrow> idx cells i)"

definition wallet_json :: "jsval \<Rightarrow> jsnum \<Rightarrow> jsnum \<Rightarrow> json" where
  "wallet_json userEmail balance earnings =
     JObj [(''userEmail'', JV userEmail), (''balance'', JV (JNum balance)),
           (''earnings'', JV (JNum earnings))]"

definition wallet_data_handler :: "api_error option \<Rightarrow> user_data \<Rightarrow> world \<Rightarrow> response \<times> world" where
  "wallet_data_handler fault user w =
     (case values_get (balance_read fault w) w of
        (Inl error, w1) \<Rightarrow> (respond 500 (json_error ''Failed to fetch wallet data''), w1)
      | (Inr None, w1) \<Rightarrow> (respond 200 (wallet_json (email user) (Fin 0) (Fin 0)), w1)
      | (Inr (Some vs), w1) \<Rightarrow>
          (let userData = find (\<lambda>row. strict_eq (idx row 1) (email user)) vs
           in (respond 200
                 (wallet_json (email user)
                    (parseFloat (js_or (opt_idx userData 6) (JNum (Fin 0))))
                    (parseFloat (js_or (opt_idx userData 5) (JNum (Fin 0))))), w1)))"

definition wallet_data :: "env \<Rightarrow> api_error option \<Rightarrow> request \<Rightarrow> world \<Rightarrow> response \<times> world" where
  "wallet_data E fault req w = protected E (wallet_data_handler fault) req w"

section \<open>The first variant of the server (signed tokens, read-only sheet)\<close>

text \<open>
  Its \<open>authenticateToken\<close> checks the token with \<open>jwt.verify\<close>, given here as
  \<open>jwt_verify\<close> (\<open>None\<close> when the callback gets an error). The variant defines this
  middleware and registers every route without it: the handlers below are the whole
  routes, and none of them looks at the request's headers. \<open>performance_tile\<close> is
  only built once the read is known to have two rows.
\<close>

definition authenticateToken_v1 :: "(string \<Rightarrow> json option) \<Rightarrow> request \<Rightarrow> response + json" where
  "authenticateToken_v1 jwt_verify req =
     (let token = bearer_token (authorization req)
      in if \<not> truthy token then Inl (respond 401 (json_error ''No token provided''))
         else case (case token of JStr t \<Rightarrow> jwt_verify t | _ \<Rightarrow> None) of
                None \<Rightarrow> Inl (respond 403 (json_error ''Invalid token''))
              | Some user \<Rightarrow> Inr user)"

definition performance_tile :: "string \<Rightarrow> row list \<Rightarrow> nat \<Rightarrow> json" where
  "performance_tile title rows i =
     JObj [(''title'', JV (JStr title)), (''value'', JV (idx (rows ! 1) i)),
           (''change'', JV (idx (rows ! 0) i))]"

definition performance_data_v1 :: "request \<Rightarrow> sheet_read \<Rightarrow> response" where
  "performance_data_v1 req r =
     (case r of
        Inl error \<Rightarrow> respond 500 (json_error ''Failed to fetch performance data'')
      | Inr None \<Rightarrow> respond 404 (json_error ''No data found in spreadsheet'')
      | Inr (Some rows) \<Rightarrow>
          if length rows < 2 then respond 404 (json_error ''No data found in spreadsheet'')
          else respond 200
                 (JArr [performance_tile ''This Week PNL'' rows 0,
                        performance_tile ''Last Week PNL'' rows 1,
                        performance_tile ''Monthly PNL'' rows 2,
                        performance_tile ''Yearly PNL'' rows 3]))"

definition pnl_point_v1 :: "row \<Rightarrow> json" where
  "pnl_point_v1 row =
     JObj [(''date'', JV (idx row 0)),
           (''pnl'', JV (if truthy (idx row 3) then JNum (parseFloat (idx row 3)) else JNull))]"

definition pnl_data_v1 :: "request \<Rightarrow> sheet_read \<Rightarrow> response" where
  "pnl_data_v1 req r =
     (case r of
        Inl error \<Rightarrow>
          respond 500 (JObj [(''error'', JV (JStr ''Failed to fetch PNL data'')),
                             (''details'', JV (JStr (err_message error)))])
      | Inr None \<Rightarrow> respond 200 (JArr [])
      | Inr (Some vs) \<Rightarrow> respond 200 (JArr (map pnl_point_v1 vs)))"

section \<open>The third variant of the server (federated tokens, read-only sheet)\<close>

text \<open>
  Its handlers for verify-token, performance-data, trade-history and pnl-data are those of
  the variant with the balance sheet, word for word, behind this middleware, which keeps
  the whole decoded token as \<open>req.user\<close>.
\<close>

definition authenticateToken_v3 :: "env \<Rightarrow> request \<Rightarrow> response + decoded_token" where
  "authenticateToken_v3 E req =
     (let token = bearer_token (authorization req)
      in if \<not> truthy token then Inl (respond 401 (json_error ''No token provided''))
         else case verify_value E token of
                None \<Rightarrow> Inl (respond 403 (json_error ''Invalid token''))
              | Some decodedToken \<Rightarrow> Inr decodedToken)"

section \<open>Runs of requests, and what the properties speak of\<close>

text \<open>A request to the performance endpoint served on its own: the clock at the cache
  lookup, the outcome the read has if it is issued, and the clock when it has settled.\<close>

record perf_request =
  pr_request :: request
  pr_lookup :: nat
  pr_read :: sheet_read
  pr_settled :: nat

fun serve_performance :: "env \<Rightarrow> perf_request list \<Rightarrow> world \<Rightarrow> response list \<times> world" where
  "serve_performance E [] w = ([], w)"
| "serve_performance E (q # qs) w =
     (case performance_data E (pr_lookup q) (pr_read q) (pr_settled q) (pr_request q) w of
        (res, w1) \<Rightarrow> (case serve_performance E qs w1 of (rs, w2) \<Rightarrow> (res # rs, w2)))"

text \<open>The two requests that reach the upsert, each with the faults of its spreadsheet
  calls. \<open>run_calls\<close> serves them one after another: a call has finished, its append
  included, before the next one begins.\<close>

datatype upsert_call =
    Google_login "api_error option" "api_error option" request
  | Signup "api_error option" "api_error option" request

fun run_call :: "env \<Rightarrow> upsert_call \<Rightarrow> world \<Rightarrow> response \<times> world" where
  "run_call E (Google_login get_fault append_fault req) w = login_google E get_fault append_fault req w"
| "run_call E (Signup get_fault append_fault req) w = signup E get_fault append_fault req w"

fun run_calls :: "env \<Rightarrow> upsert_call list \<Rightarrow> world \<Rightarrow> world" where
  "run_calls E [] w = w"
| "run_calls E (c # cs) w = run_calls E cs (snd (run_call E c w))"

text \<open>The email a call hands to the upsert: the token's for a Google login, the body's
  for a signup whose token carries the same one; \<open>None\<close> for a call that is answered
  before the upsert.\<close>

fun submitted_email :: "env \<Rightarrow> upsert_call \<Rightarrow> jsval option" where
  "submitted_email E (Google_login get_fault append_fault req) =
     (if truthy (field (req_body req) ''idToken'')
      then map_option (\<lambda>d. of_opt (tok_email d)) (verify_value E (field (req_body req) ''idToken''))
      else None)"
| "submitted_email E (Signup get_fault append_fault req) =
     (case authenticateToken E req of
        Inl _ \<Rightarrow> None
      | Inr user \<Rightarrow>
          if strict_eq (email user) (field (req_body req) ''email'')
          then Some (field (req_body req) ''email'') else None)"

text \<open>The balance rows of an email: those whose second column is strictly equal to it.\<close>

definition balance_rows_for :: "jsval \<Rightarrow> row list \<Rightarrow> row list" where
  "balance_rows_for e rows = filter (\<lambda>row. strict_eq (idx row 1) e) rows"

text \<open>A number printed with two decimals: an optional minus sign, at least one digit,
  a point, two digits.\<close>

definition two_decimals :: "string \<Rightarrow> bool" where
  "two_decimals s =
     (let u = (case s of [] \<Rightarrow> [] | c # r \<Rightarrow> if c = CHR ''-'' then r else s)
      in takeWhile is_digit u \<noteq> [] \<and>
         (case dropWhile is_digit u of
            [p, a, b] \<Rightarrow> p = CHR ''.'' \<and> is_digit a \<and> is_digit b
          | _ \<Rightarrow> False))"

text \<open>A read that gave nothing to format: a rejection, or no first row.\<close>

definition read_failed :: "sheet_read \<Rightarrow> bool" where
  "read_failed r = (case r of Inl _ \<Rightarrow> True | Inr None \<Rightarrow> True | Inr (Some []) \<Rightarrow> True | _ \<Rightarrow> False)"

subsection \<open>Sample inputs\<close>

definition sample_token :: decoded_token where
  "sample_token =
     \<lparr>tok_uid = ''u1'', tok_email = Some ''ann@example.com'', tok_name = Some ''Ann'',
      tok_phone_number = None\<rparr>"

definition sample_env :: env where
  "sample_env =
     \<lparr>verifyIdToken = (\<lambda>t. if t = ''good'' then Some sample_token else None),
      createCustomToken = (\<lambda>u. Some (''custom-'' @ u)),
      user_entered = JStr,
      NODE_ENV = None\<rparr>"

definition sample_request :: request where
  "sample_request =
     \<lparr>authorization = Some ''Bearer good'',
      req_body = [(''idToken'', JStr ''good''), (''email'', JStr ''ann@example.com''),
                  (''displayName'', JStr ''Ann'')]\<rparr>"

definition sample_user :: user_data where
  "sample_user =
     \<lparr>email = JStr ''ann@example.com'', displayName = JStr ''Ann'', phoneNumber = JUndefined,
      uid = JStr ''u1''\<rparr>"

definition anonymous_request :: request where
  "anonymous_request = \<lparr>authorization = None, req_body = []\<rparr>"

definition empty_world :: world where
  "empty_world = \<lparr>cache = Map.empty, user_balance = [], sheet_reads = 0, sheet_appends = 0\<rparr>"

definition bob_row :: row where
  "bob_row =
     [JStr ''Bob'', JStr ''bob@example.com'', JStr [], JNum (Fin 100), JNum (Fin 2),
      JNum (Fin 7), JNum (Fin 107)]"

definition ann_row :: row where
  "ann_row =
     [JStr ''Ann'', JStr ''ann@example.com'', JStr [], JNum (Fin 0), JNum (Fin 0),
      JNum (Fin 0), JNum (Fin 0)]"

definition flat_row :: row where
  "flat_row = [JStr ''2024-01-02'', JStr ''GOLD'', JStr ''BUY'', JStr []]"

definition text_row :: row where
  "text_row = [JStr ''2024-01-02'', JStr [], JStr ''SELL'', JStr ''n/a'']"

definition short_row :: row where
  "short_row = [JStr ''2024-01-03'', JStr ''OIL'']"

definition new_user_row :: row where
  "new_user_row = [JStr ''Ann'', JStr ''ann@example.com'']"

definition zero_summary :: row where
  "zero_summary = [JNum (Fin 0)]"

definition zero_payload :: json where
  "zero_payload =
     JObj [(''thisWeek'', JV (JStr ''0.00'')), (''lastWeek'', JV (JStr ''0.00'')),
           (''monthly'', JV (JNum (Fin 0))), (''yearly'', JV (JNum (Fin 0)))]"

definition quota_error :: api_error where
  "quota_error = \<lparr>err_code = Some 429, err_message = ''Quota exceeded''\<rparr>"

definition failing_request :: "nat \<Rightarrow> perf_request" where
  "failing_request t =
     \<lparr>pr_request = sample_request, pr_lookup = t, pr_read = Inl quota_error, pr_settled = t + 200\<rparr>"

definition cached_world :: world where
  "cached_world =
     empty_world\<lparr>cache := [''performance-data'' \<mapsto> \<lparr>entry_v = zero_payload, entry_t = 31000\<rparr>]\<rparr>"

definition overview_rows :: "row list" where
  "overview_rows =
     [[JStr ''2%'', JStr ''1%'', JStr ''5%'', JStr ''9%''],
      [JStr ''120'', JStr ''80'', JStr ''400'', JStr ''1500'']]"

text \<open>Two Google logins of the sample user whose upserts overlap: both reads are issued
  before either call goes on to its append.\<close>

definition ann_data :: user_data where
  "ann_data =
     \<lparr>email = JStr ''ann@example.com'', displayName = JStr ''Ann'', phoneNumber = JUndefined,
      uid = JUndefined\<rparr>"

definition first_read :: "sheet_read \<times> world" where
  "first_read = updateUserBalanceSheet_begin None empty_world"

definition second_read :: "sheet_read \<times> world" where
  "second_read = updateUserBalanceSheet_begin None (snd first_read)"

definition first_append :: "(string + unit) \<times> world" where
  "first_append =
     updateUserBalanceSheet_resume sample_env None ann_data (fst first_read) (snd second_read)"

definition second_append :: "(string + unit) \<times> world" where
  "second_append =
     updateUserBalanceSheet_resume sample_env None ann_data (fst second_read) (snd first_append)"

section \<open>Properties\<close>

subsection \<open>Shared facts\<close>

lemma truthy_js_or_str: "s \<noteq> [] \<Longrightarrow> truthy (js_or x (JStr s))"
  by (simp add: js_or_def)

lemma protected_authorized:
  "authenticateToken E req = Inr user \<Longrightarrow> protected E handler req w = handler user w"
  by (simp add: protected_def)

lemma sample_authorized: "authenticateToken sample_env sample_request = Inr sample_user"
  by (simp add: authenticateToken_def sample_env_def sample_request_def sample_user_def
      sample_token_def bearer_token_def str_at_def nth_opt_def verify_value_def of_opt_def)

lemma parseFloat_zero: "parseFloat (JNum (Fin 0)) = Fin 0"
  by (simp add: parseFloat_def js_toString_def Number_toString_def parseFloat_str_def
      unsigned_literal_def trim_start_def white_space_length_def is_space_def is_digit_def
      digits_val_def digit_val_def round64_def)

lemma parseFloat_not_available: "parseFloat (JStr ''n/a'') = NaN"
  by (simp add: parseFloat_def js_toString_def parseFloat_str_def
      unsigned_literal_def trim_start_def white_space_length_def is_space_def is_digit_def)

subsection \<open>Trade history\<close>

text \<open>After the defaults, a shaped trade always has a symbol, a direction and a numeric
  pnl, so the second filter keeps exactly the trades whose timestamp cell is truthy.\<close>

lemma valid_shape_trade: "valid_trade (shape_trade row) = truthy (idx row 0)"
  by (simp add: valid_trade_def shape_trade_def truthy_js_or_str typeof_number_def Let_def)

lemma filter_valid_shape:
  "filter valid_trade (map shape_trade rows) =
     map shape_trade (filter (\<lambda>row. truthy (idx row 0)) rows)"
  by (induction rows) (simp_all add: valid_shape_trade)

lemma trade_history_handler_rows:
  "fst (trade_history_handler E (Inr (Some rows)) user w) =
     respond 200 (JArr (map trade_json (rev (map shape_trade
        (filter (\<lambda>row. 4 \<le> length row \<and> truthy (idx row 0)) rows)))))"
  by (simp add: trade_history_handler_def values_get_def filter_valid_shape conj_commute)

text \<open>
  Claim C5, as stated: the trade-history endpoint drops every row with fewer than 4 cells
  and returns the remaining rows, as trades, newest first. It fails on a row that has four
  cells and an empty timestamp cell: the row is dropped too, by the second filter
  (\<open>trade.timestamp &&\<close> ...), so the answer is empty although one row has all
  four cells.
\<close>

theorem trade_history_empty_timestamp_dropped:
  "4 \<le> length [JStr [], JStr ''GOLD'', JStr ''BUY'', JNum (Fin 5)] \<and>
   fst (trade_history sample_env
          (Inr (Some [[JStr [], JStr ''GOLD'', JStr ''BUY'', JNum (Fin 5)]]))
          sample_request empty_world) = respond 200 (JArr [])"
  using trade_history_handler_rows
    [of sample_env "[[JStr [], JStr ''GOLD'', JStr ''BUY'', JNum (Fin 5)]]" sample_user empty_world]
  by (simp add: trade_history_def protected_authorized [OF sample_authorized] idx_def)

text \<open>
  Claim C5, amended: for every sequence of rows the spreadsheet returns, in sheet order,
  the trade-history endpoint answers an authorized request with the rows that have at
  least 4 cells and a truthy (non-empty) timestamp cell, each shaped into a trade, in
  reversed order; every other row is dropped, and a read without rows is answered with
  the empty list.
\<close>

theorem trade_history_drops_and_reverses:
  assumes "authenticateToken E req = Inr user"
  shows "fst (trade_history E (Inr (Some rows)) req w) =
           respond 200 (JArr (map trade_json (rev (map shape_trade
              (filter (\<lambda>row. 4 \<le> length row \<and> truthy (idx row 0)) rows))))) \<and>
         fst (trade_history E (Inr None) req w) = respond 200 (JArr [])"
  using assms
  by (simp add: trade_history_def protected_authorized trade_history_handler_rows)
     (simp add: trade_history_handler_def values_get_def)

theorem trade_history_drops_and_reverses_witness:
  "authenticateToken sample_env sample_request = Inr sample_user \<and>
   fst (trade_history sample_env
          (Inr (Some [[JStr ''2024-01-02'', JStr ''GOLD'', JStr ''SELL'', JStr ''n/a''],
                      [JStr ''2024-01-03'', JStr ''OIL''],
                      [JStr [], JStr ''GOLD'', JStr ''BUY'', JStr []],
                      [JStr ''2024-01-04'', JStr [], JStr ''BUY'', JStr []]]))
          sample_request empty_world) =
     respond 200 (JArr
       [JObj [(''timestamp'', JV (JStr ''2024-01-04'')), (''symbol'', JV (JStr ''GOLD'')),
              (''direction'', JV (JStr ''BUY'')), (''pnl'', JV (JNum (Fin 0)))],
        JObj [(''timestamp'', JV (JStr ''2024-01-02'')), (''symbol'', JV (JStr ''GOLD'')),
              (''direction'', JV (JStr ''SELL'')), (''pnl'', JV (JNum (Fin 0)))]])"
  using trade_history_drops_and_reverses [OF sample_authorized, of
      "[[JStr ''2024-01-02'', JStr ''GOLD'', JStr ''SELL'', JStr ''n/a''],
        [JStr ''2024-01-03'', JStr ''OIL''],
        [JStr [], JStr ''GOLD'', JStr ''BUY'', JStr []],
        [JStr ''2024-01-04'', JStr [], JStr ''BUY'', JStr []]]" empty_world]
  by (simp add: sample_authorized idx_def shape_trade_def trade_json_def js_or_def
      opt_toString_def js_toString_def parseFloat_zero parseFloat_not_available isNaN_num_def)

subsection \<open>Wallet data\<close>

lemma find_none: "\<forall>x\<in>set xs. \<not> P x \<Longrightarrow> find P xs = None"
  by (induction xs) auto

lemma wallet_no_row:
  assumes "\<forall>row\<in>set (user_balance w). \<not> strict_eq (idx row 1) (email user)"
  shows "fst (wallet_data_handler None user w) =
           respond 200 (wallet_json (email user) (Fin 0) (Fin 0))"
  using find_none [OF assms]
  by (simp add: wallet_data_handler_def values_get_def balance_read_def opt_idx_def js_or_def
      parseFloat_zero)

text \<open>
  Claim C7: for every authenticated email that no balance row's email column matches, the
  sheet being empty included, the wallet-data endpoint (its read succeeding) answers with
  balance 0 and earnings 0.
\<close>

theorem wallet_data_zero_defaults:
  assumes "authenticateToken E req = Inr user"
    and "\<forall>row\<in>set (user_balance w). \<not> strict_eq (idx row 1) (email user)"
  shows "fst (wallet_data E None req w) =
           respond 200 (JObj [(''userEmail'', JV (email user)), (''balance'', JV (JNum (Fin 0))),
                              (''earnings'', JV (JNum (Fin 0)))])"
  using assms by (simp add: wallet_data_def protected_authorized wallet_no_row wallet_json_def)

theorem wallet_data_zero_defaults_witness:
  "authenticateToken sample_env sample_request = Inr sample_user \<and>
   \<not> strict_eq (idx bob_row 1) (email sample_user) \<and>
   fst (wallet_data sample_env None sample_request (empty_world\<lparr>user_balance := [bob_row]\<rparr>)) =
     respond 200 (JObj [(''userEmail'', JV (JStr ''ann@example.com'')),
                        (''balance'', JV (JNum (Fin 0))), (''earnings'', JV (JNum (Fin 0)))]) \<and>
   fst (wallet_data sample_env None sample_request empty_world) =
     respond 200 (JObj [(''userEmail'', JV (JStr ''ann@example.com'')),
                        (''balance'', JV (JNum (Fin 0))), (''earnings'', JV (JNum (Fin 0)))])"
  using wallet_data_zero_defaults [OF sample_authorized, of "empty_world\<lparr>user_balance := [bob_row]\<rparr>"]
    wallet_data_zero_defaults [OF sample_authorized, of empty_world]
  by (simp add: sample_authorized idx_def sample_user_def empty_world_def bob_row_def)

subsection \<open>The balance-sheet upsert\<close>

lemma findIndex_ge: "- 1 \<le> findIndex P xs"
  by (induction xs) (auto simp: Let_def)

lemma findIndex_none: "(findIndex P xs = - 1) = (filter P xs = [])"
proof (induction xs)
  case Nil
  then show ?case by simp
next
  case (Cons x xs)
  have "- 1 \<le> findIndex P xs" by (rule findIndex_ge)
  with Cons show ?case by (auto simp: Let_def)
qed

lemma upsert_balance:
  "user_balance (snd (updateUserBalanceSheet E gf af ud w)) =
     (if gf = None \<and> af = None \<and> balance_rows_for (email ud) (user_balance w) = []
      then user_balance w @ [map (store_cell E) (newRow ud)]
      else user_balance w)"
  by (cases gf; cases af)
     (auto simp: updateUserBalanceSheet_def updateUserBalanceSheet_begin_def
        updateUserBalanceSheet_resume_def values_get_def balance_read_def values_append_def
       findIndex_none balance_rows_for_def Let_def)

lemma upsert_appends:
  "sheet_appends (snd (updateUserBalanceSheet E gf af ud w)) =
     (if gf = None \<and> balance_rows_for (email ud) (user_balance w) = []
      then sheet_appends w + 1 else sheet_appends w)"
  by (cases gf; cases af)
     (auto simp: updateUserBalanceSheet_def updateUserBalanceSheet_begin_def
        updateUserBalanceSheet_resume_def values_get_def balance_read_def values_append_def
       findIndex_none balance_rows_for_def Let_def)

lemma run_call_cases:
  "(submitted_email E c = None \<and> snd (run_call E c w) = w) \<or>
   (\<exists>ud gf af. submitted_email E c = Some (email ud) \<and>
      snd (run_call E c w) = snd (updateUserBalanceSheet E gf af ud w))"
proof (cases c)
  case (Google_login gf af req)
  show ?thesis
  proof (cases "truthy (field (req_body req) ''idToken'')")
    case False
    then show ?thesis using Google_login by (simp add: login_google_def)
  next
    case True
    show ?thesis
    proof (cases "verify_value E (field (req_body req) ''idToken'')")
      case None
      then show ?thesis using Google_login True by (simp add: login_google_def)
    next
      case (Some d)
      let ?ud = "\<lparr>email = of_opt (tok_email d), displayName = of_opt (tok_name d),
                   phoneNumber = of_opt (tok_phone_number d), uid = JUndefined\<rparr>"
      have "snd (run_call E c w) = snd (updateUserBalanceSheet E gf af ?ud w)"
        using Google_login True Some
        by (auto simp: login_google_def split: prod.splits sum.splits option.splits)
      moreover have "submitted_email E c = Some (email ?ud)"
        using Google_login True Some by simp
      ultimately show ?thesis by blast
    qed
  qed
next
  case (Signup gf af req)
  show ?thesis
  proof (cases "authenticateToken E req")
    case (Inl r)
    then show ?thesis using Signup by (simp add: signup_def protected_def)
  next
    case (Inr user)
    show ?thesis
    proof (cases "strict_eq (email user) (field (req_body req) ''email'')")
      case False
      then show ?thesis using Signup Inr by (simp add: signup_def protected_def signup_handler_def)
    next
      case True
      let ?ud = "\<lparr>email = field (req_body req) ''email'',
                   displayName = field (req_body req) ''displayName'',
                   phoneNumber = field (req_body req) ''phoneNumber'', uid = uid user\<rparr>"
      have "snd (run_call E c w) = snd (updateUserBalanceSheet E gf af ?ud w)"
        using Signup True Inr
        by (auto simp: signup_def protected_def signup_handler_def split: prod.splits sum.splits)
      moreover have "submitted_email E c = Some (email ?ud)"
        using Signup True Inr by simp
      ultimately show ?thesis by blast
    qed
  qed
qed

lemma run_call_balance:
  "user_balance (snd (run_call E c w)) = user_balance w \<or>
   (\<exists>ud. submitted_email E c = Some (email ud) \<and>
      balance_rows_for (email ud) (user_balance w) = [] \<and>
      user_balance (snd (run_call E c w)) = user_balance w @ [map (store_cell E) (newRow ud)])"
  using run_call_cases [of E c w] by (auto simp: upsert_balance split: if_splits)

lemma run_call_keeps_one:
  assumes "length (balance_rows_for e (user_balance w)) \<le> 1"
    and "submitted_email E c = None \<or> submitted_email E c = Some e"
  shows "length (balance_rows_for e (user_balance (snd (run_call E c w)))) \<le> 1"
  using run_call_balance [of E c w] assms
  by (auto simp: balance_rows_for_def)

lemma run_calls_keep_one:
  assumes "length (balance_rows_for e (user_balance w)) \<le> 1"
    and "\<forall>c\<in>set calls. submitted_email E c = None \<or> submitted_email E c = Some e"
  shows "length (balance_rows_for e (user_balance (run_calls E calls w))) \<le> 1"
  using assms
proof (induction calls arbitrary: w)
  case Nil
  then show ?case by simp
next
  case (Cons c cs)
  have "length (balance_rows_for e (user_balance (snd (run_call E c w)))) \<le> 1"
    using Cons.prems by (intro run_call_keeps_one) auto
  then show ?case using Cons by simp
qed

lemma sample_submitted_google:
  "submitted_email sample_env (Google_login gf af sample_request) = Some (JStr ''ann@example.com'')"
  by (simp add: sample_env_def sample_request_def field_def verify_value_def sample_token_def of_opt_def)

lemma sample_submitted_signup:
  "submitted_email sample_env (Signup gf af sample_request) = Some (JStr ''ann@example.com'')"
  by (simp add: sample_authorized) (simp add: sample_user_def sample_request_def field_def)

lemma sample_google_user:
  "verify_value sample_env (field (req_body sample_request) ''idToken'') = Some sample_token"
  by (simp add: sample_env_def sample_request_def field_def verify_value_def)

text \<open>A Google login of the sample user changes the state as the upsert of
  \<open>ann_data\<close> does.\<close>

lemma sample_login_is_upsert:
  "snd (login_google sample_env gf af sample_request w) =
     snd (updateUserBalanceSheet sample_env gf af ann_data w)"
  by (auto simp: login_google_def sample_env_def sample_request_def sample_token_def field_def
        verify_value_def of_opt_def ann_data_def split: prod.splits sum.splits)

text \<open>
  Claim C4, as stated: performing the upsert any number of times with the same email
  leaves at most one balance row for it. The upsert awaits its read before it appends, so
  two logins with one email can both read the empty sheet before either appends: both
  find no row, both append, and the sheet ends with two rows for the email.
\<close>

theorem overlapping_upserts_append_twice:
  "fst first_read = Inr None \<and> fst second_read = Inr None \<and>
   user_balance (snd second_append) = [ann_row, ann_row] \<and>
   length (balance_rows_for (JStr ''ann@example.com'') (user_balance (snd second_append))) = 2"
proof -
  have r1: "first_read = (Inr None, empty_world\<lparr>sheet_reads := 1\<rparr>)"
    by (simp add: first_read_def updateUserBalanceSheet_begin_def values_get_def balance_read_def
        empty_world_def)
  have r2: "second_read = (Inr None, empty_world\<lparr>sheet_reads := 2\<rparr>)"
    by (simp add: second_read_def r1 updateUserBalanceSheet_begin_def values_get_def
        balance_read_def empty_world_def)
  have a1: "user_balance (snd first_append) = [ann_row]"
    by (simp add: first_append_def r1 r2 updateUserBalanceSheet_resume_def values_append_def
        newRow_def ann_data_def js_or_def store_cell_def sample_env_def ann_row_def empty_world_def)
  have a2: "user_balance (snd second_append) = user_balance (snd first_append) @ [ann_row]"
    by (simp add: second_append_def r2 updateUserBalanceSheet_resume_def values_append_def
        newRow_def ann_data_def js_or_def store_cell_def sample_env_def ann_row_def)
  have rows: "user_balance (snd second_append) = [ann_row, ann_row]"
    using a1 a2 by simp
  have two: "length (balance_rows_for (JStr ''ann@example.com'') (user_balance (snd second_append))) = 2"
    by (simp add: rows balance_rows_for_def ann_row_def idx_def)
  have f1: "fst first_read = Inr None" and f2: "fst second_read = Inr None"
    by (simp_all add: r1 r2)
  show ?thesis
    using f1 f2 rows two by (intro conjI)
qed

text \<open>A call whose read still shows the sheet as it is when the call goes on, no append
  having come between, keeps the bound.\<close>

lemma resume_on_current_rows:
  assumes "length (balance_rows_for (email ud) (user_balance w)) \<le> 1"
  shows "length (balance_rows_for (email ud)
           (user_balance (snd (updateUserBalanceSheet_resume E af ud (balance_read None w) w)))) \<le> 1"
  using assms
  by (cases af)
     (auto simp: updateUserBalanceSheet_resume_def balance_read_def values_append_def
        findIndex_none balance_rows_for_def Let_def)

text \<open>An absent email is \<open>undefined\<close>, which no cell of a stored row equals: a
  login whose token has no email appends a row each time.\<close>

lemma upsert_without_email_appends:
  assumes "email ud = JUndefined"
    and "\<forall>row\<in>set (user_balance w). idx row 1 \<noteq> JUndefined"
  shows "user_balance (snd (updateUserBalanceSheet E None None ud w)) =
           user_balance w @ [map (store_cell E) (newRow ud)]"
proof -
  have "strict_eq c JUndefined = (c = JUndefined)" for c
    by (cases c) simp_all
  then have "balance_rows_for (email ud) (user_balance w) = []"
    using assms by (simp add: balance_rows_for_def filter_empty_conv)
  then show ?thesis
    by (simp add: upsert_balance)
qed

text \<open>
  Claim C4, amended: from any sheet with at most one balance row for an email, any number
  of Google logins and signups that submit this email, served one after another so that
  no call reads the sheet before the call before it has finished (whatever their
  spreadsheet calls do), leave at most one balance row whose email column equals it; and
  a call changes the sheet only by appending one row, and only when no existing row's
  email column equals the email it submits.
\<close>

theorem upsert_at_most_one_row:
  assumes "length (balance_rows_for e (user_balance w)) \<le> 1"
    and "\<forall>c\<in>set calls. submitted_email E c = None \<or> submitted_email E c = Some e"
  shows "length (balance_rows_for e (user_balance (run_calls E calls w))) \<le> 1 \<and>
         (\<forall>c. user_balance (snd (run_call E c w)) = user_balance w \<or>
            (\<exists>ud. submitted_email E c = Some (email ud) \<and>
               balance_rows_for (email ud) (user_balance w) = [] \<and>
               user_balance (snd (run_call E c w)) =
                 user_balance w @ [map (store_cell E) (newRow ud)]))"
  using run_calls_keep_one [OF assms] run_call_balance [of E _ w] by blast

lemmas sample_defs = sample_env_def sample_request_def sample_token_def sample_user_def
  field_def verify_value_def of_opt_def idx_def js_or_def store_cell_def newRow_def

lemma sample_login_world:
  "user_balance w = [] \<Longrightarrow>
   snd (login_google sample_env None None sample_request w) =
     w\<lparr>user_balance := [ann_row], sheet_reads := sheet_reads w + 1,
       sheet_appends := sheet_appends w + 1\<rparr>"
  by (simp add: login_google_def updateUserBalanceSheet_def updateUserBalanceSheet_begin_def
        updateUserBalanceSheet_resume_def values_get_def balance_read_def
        values_append_def sample_defs ann_row_def)

lemma sample_login_again:
  "user_balance w = [ann_row] \<Longrightarrow>
   snd (login_google sample_env None None sample_request w) = w\<lparr>sheet_reads := sheet_reads w + 1\<rparr>"
  by (simp add: login_google_def updateUserBalanceSheet_def updateUserBalanceSheet_begin_def
        updateUserBalanceSheet_resume_def values_get_def balance_read_def
        sample_defs ann_row_def)

lemma sample_signup_again:
  "user_balance w = [ann_row] \<Longrightarrow>
   snd (signup sample_env None None sample_request w) = w\<lparr>sheet_reads := sheet_reads w + 1\<rparr>"
  by (simp add: signup_def protected_authorized [OF sample_authorized])
     (simp add: signup_handler_def updateUserBalanceSheet_def updateUserBalanceSheet_begin_def
        updateUserBalanceSheet_resume_def values_get_def balance_read_def
        sample_defs ann_row_def)

theorem upsert_at_most_one_row_witness:
  "length (balance_rows_for (JStr ''ann@example.com'') (user_balance empty_world)) \<le> 1 \<and>
   submitted_email sample_env (Google_login None None sample_request) = Some (JStr ''ann@example.com'') \<and>
   submitted_email sample_env (Signup None None sample_request) = Some (JStr ''ann@example.com'') \<and>
   user_balance (run_calls sample_env
      [Google_login None None sample_request, Signup None None sample_request,
       Google_login None None sample_request] empty_world) = [ann_row] \<and>
   length (balance_rows_for (JStr ''ann@example.com'') (user_balance (run_calls sample_env
      [Google_login None None sample_request, Signup None None sample_request,
       Google_login None None sample_request] empty_world))) \<le> 1"
proof -
  let ?e = "JStr ''ann@example.com''"
  let ?calls = "[Google_login None None sample_request, Signup None None sample_request,
                 Google_login None None sample_request]"
  have one: "length (balance_rows_for ?e (user_balance empty_world)) \<le> 1"
    by (simp add: empty_world_def balance_rows_for_def)
  have g: "submitted_email sample_env (Google_login None None sample_request) = Some ?e"
    by (rule sample_submitted_google)
  have s: "submitted_email sample_env (Signup None None sample_request) = Some ?e"
    by (rule sample_submitted_signup)
  have same: "\<forall>c\<in>set ?calls. submitted_email sample_env c = None \<or> submitted_email sample_env c = Some ?e"
    using g s by simp
  have run: "user_balance (run_calls sample_env ?calls empty_world) = [ann_row]"
    by (simp add: sample_login_world sample_signup_again sample_login_again empty_world_def)
  have kept: "length (balance_rows_for ?e (user_balance (run_calls sample_env ?calls empty_world))) \<le> 1"
    using upsert_at_most_one_row [OF one same] by (rule conjunct1)
  show ?thesis
    using one g s run kept by (intro conjI)
qed

lemma run_call_appends:
  "submitted_email E c = Some e \<Longrightarrow> balance_rows_for e (user_balance w) \<noteq> [] \<Longrightarrow>
   sheet_appends (snd (run_call E c w)) = sheet_appends w"
  using run_call_cases [of E c w] by (auto simp: upsert_appends)

text \<open>
  Claim C8: when a balance row already exists for the email a Google login or a signup
  submits, the call writes nothing: no append is issued, and the sheet is left as it
  was, the existing row and every other row.
\<close>

theorem upsert_existing_row_untouched:
  assumes "submitted_email E c = Some e"
    and "balance_rows_for e (user_balance w) \<noteq> []"
  shows "user_balance (snd (run_call E c w)) = user_balance w \<and>
         sheet_appends (snd (run_call E c w)) = sheet_appends w"
  using run_call_balance [of E c w] run_call_appends [OF assms] assms by auto

theorem upsert_existing_row_untouched_witness:
  "submitted_email sample_env (Google_login None None sample_request) = Some (JStr ''ann@example.com'') \<and>
   submitted_email sample_env (Signup None None sample_request) = Some (JStr ''ann@example.com'') \<and>
   balance_rows_for (JStr ''ann@example.com'') [bob_row, ann_row] = [ann_row] \<and>
   user_balance (snd (login_google sample_env None None sample_request
                        (empty_world\<lparr>user_balance := [bob_row, ann_row]\<rparr>))) = [bob_row, ann_row] \<and>
   sheet_appends (snd (login_google sample_env None None sample_request
                        (empty_world\<lparr>user_balance := [bob_row, ann_row]\<rparr>))) = 0 \<and>
   user_balance (snd (signup sample_env None None sample_request
                        (empty_world\<lparr>user_balance := [bob_row, ann_row]\<rparr>))) = [bob_row, ann_row] \<and>
   sheet_appends (snd (signup sample_env None None sample_request
                        (empty_world\<lparr>user_balance := [bob_row, ann_row]\<rparr>))) = 0"
proof -
  let ?e = "JStr ''ann@example.com''"
  let ?w = "empty_world\<lparr>user_balance := [bob_row, ann_row]\<rparr>"
  have g: "submitted_email sample_env (Google_login None None sample_request) = Some ?e"
    by (rule sample_submitted_google)
  have s: "submitted_email sample_env (Signup None None sample_request) = Some ?e"
    by (rule sample_submitted_signup)
  have rows: "balance_rows_for ?e [bob_row, ann_row] = [ann_row]"
    by (simp add: balance_rows_for_def bob_row_def ann_row_def idx_def)
  have ex: "balance_rows_for ?e (user_balance ?w) \<noteq> []"
    using rows by simp
  have a0: "sheet_appends ?w = 0"
    by (simp add: empty_world_def)
  show ?thesis
    using upsert_existing_row_untouched [OF g ex] upsert_existing_row_untouched [OF s ex] g s rows a0
    by simp
qed

lemma wallet_handler_eq:
  "fst (wallet_data_handler None user w) =
     respond 200 (wallet_json (email user)
       (parseFloat (js_or (opt_idx (find (\<lambda>row. strict_eq (idx row 1) (email user)) (user_balance w)) 6) (JNum (Fin 0))))
       (parseFloat (js_or (opt_idx (find (\<lambda>row. strict_eq (idx row 1) (email user)) (user_balance w)) 5) (JNum (Fin 0)))))"
proof (cases "user_balance w")
  case Nil
  then show ?thesis
    by (simp add: wallet_data_handler_def values_get_def balance_read_def opt_idx_def js_or_def
        parseFloat_zero)
next
  case (Cons r rs)
  then show ?thesis
    by (simp add: wallet_data_handler_def values_get_def balance_read_def Let_def)
qed

lemma find_append_last: "filter P xs = [] \<Longrightarrow> find P (xs @ [y]) = (if P y then Some y else None)"
  by (induction xs) (auto split: if_splits)

lemma newRow_numeric_cells:
  "idx (newRow ud) 3 = JNum (Fin 0) \<and> idx (newRow ud) 4 = JNum (Fin 0) \<and>
   idx (newRow ud) 5 = JNum (Fin 0) \<and> idx (newRow ud) 6 = JNum (Fin 0)"
  by (simp add: newRow_def idx_def)

lemma stored_numeric_cells:
  "idx (map (store_cell E) (newRow ud)) 3 = JNum (Fin 0) \<and>
   idx (map (store_cell E) (newRow ud)) 4 = JNum (Fin 0) \<and>
   idx (map (store_cell E) (newRow ud)) 5 = JNum (Fin 0) \<and>
   idx (map (store_cell E) (newRow ud)) 6 = JNum (Fin 0)"
  by (simp add: newRow_def idx_def store_cell_def)

lemma wallet_after_first_upsert:
  assumes none: "balance_rows_for (email user) (user_balance w) = []"
    and sub: "submitted_email E c = Some (email user)"
  shows "fst (wallet_data_handler None user (snd (run_call E c w))) =
           respond 200 (wallet_json (email user) (Fin 0) (Fin 0))"
proof -
  let ?P = "\<lambda>row. strict_eq (idx row 1) (email user)"
  have f: "filter ?P (user_balance w) = []"
    using none by (simp add: balance_rows_for_def)
  consider (same) "user_balance (snd (run_call E c w)) = user_balance w"
    | (app) ud where "user_balance (snd (run_call E c w)) =
                        user_balance w @ [map (store_cell E) (newRow ud)]"
    using run_call_balance [of E c w] by blast
  then show ?thesis
  proof cases
    case same
    have "\<forall>row\<in>set (user_balance (snd (run_call E c w))). \<not> ?P row"
      using f same by (simp add: filter_empty_conv)
    then show ?thesis by (rule wallet_no_row)
  next
    case app
    have "find ?P (user_balance (snd (run_call E c w))) =
            (if ?P (map (store_cell E) (newRow ud)) then Some (map (store_cell E) (newRow ud)) else None)"
      using f by (simp add: app find_append_last)
    then show ?thesis
      using stored_numeric_cells [of E ud]
      by (simp add: wallet_handler_eq opt_idx_def js_or_def parseFloat_zero)
  qed
qed

lemma run_call_appended_row:
  "user_balance (snd (run_call E c w)) = user_balance w \<or>
   (\<exists>r. user_balance (snd (run_call E c w)) = user_balance w @ [r] \<and>
        idx r 3 = JNum (Fin 0) \<and> idx r 4 = JNum (Fin 0) \<and>
        idx r 5 = JNum (Fin 0) \<and> idx r 6 = JNum (Fin 0))"
  using run_call_balance [of E c w] stored_numeric_cells [of E] by blast

text \<open>
  Claim C10: the row the upsert builds has the number 0 in its deposit, pnl%, earnings and
  balance cells, and so has every row a call appends to the sheet; hence, for an email
  that had no balance row, the wallet-data request that follows its first Google login or
  signup answers balance 0 and earnings 0.
\<close>

theorem first_wallet_after_upsert_is_zero:
  assumes "balance_rows_for e (user_balance w) = []"
    and "submitted_email E c = Some e"
    and "authenticateToken E req = Inr user"
    and "email user = e"
  shows "idx (newRow ud) 3 = JNum (Fin 0) \<and> idx (newRow ud) 4 = JNum (Fin 0) \<and>
         idx (newRow ud) 5 = JNum (Fin 0) \<and> idx (newRow ud) 6 = JNum (Fin 0) \<and>
         (user_balance (snd (run_call E c w)) = user_balance w \<or>
          (\<exists>r. user_balance (snd (run_call E c w)) = user_balance w @ [r] \<and>
               idx r 3 = JNum (Fin 0) \<and> idx r 4 = JNum (Fin 0) \<and>
               idx r 5 = JNum (Fin 0) \<and> idx r 6 = JNum (Fin 0))) \<and>
         fst (wallet_data E None req (snd (run_call E c w))) =
           respond 200 (JObj [(''userEmail'', JV e), (''balance'', JV (JNum (Fin 0))),
                              (''earnings'', JV (JNum (Fin 0)))])"
proof -
  have "fst (wallet_data E None req (snd (run_call E c w))) =
          respond 200 (wallet_json (email user) (Fin 0) (Fin 0))"
    using assms by (simp add: wallet_data_def protected_authorized wallet_after_first_upsert)
  then show ?thesis
    using newRow_numeric_cells [of ud] run_call_appended_row [of E c w] assms(4)
    by (simp add: wallet_json_def)
qed

theorem first_wallet_after_upsert_is_zero_witness:
  "balance_rows_for (JStr ''ann@example.com'') (user_balance empty_world) = [] \<and>
   submitted_email sample_env (Google_login None None sample_request) = Some (JStr ''ann@example.com'') \<and>
   authenticateToken sample_env sample_request = Inr sample_user \<and>
   email sample_user = JStr ''ann@example.com'' \<and>
   newRow sample_user = ann_row \<and>
   user_balance (snd (login_google sample_env None None sample_request empty_world)) = [ann_row] \<and>
   fst (wallet_data sample_env None sample_request
          (snd (login_google sample_env None None sample_request empty_world))) =
     respond 200 (JObj [(''userEmail'', JV (JStr ''ann@example.com'')),
                        (''balance'', JV (JNum (Fin 0))), (''earnings'', JV (JNum (Fin 0)))])"
proof -
  let ?e = "JStr ''ann@example.com''"
  let ?c = "Google_login None None sample_request"
  have none: "balance_rows_for ?e (user_balance empty_world) = []"
    by (simp add: empty_world_def balance_rows_for_def)
  have g: "submitted_email sample_env ?c = Some ?e"
    by (rule sample_submitted_google)
  have em: "email sample_user = ?e"
    by (simp add: sample_user_def)
  have row: "newRow sample_user = ann_row"
    by (simp add: newRow_def sample_user_def ann_row_def js_or_def)
  have after: "user_balance (snd (login_google sample_env None None sample_request empty_world)) = [ann_row]"
    by (simp add: sample_login_world empty_world_def)
  have wallet: "fst (wallet_data sample_env None sample_request
          (snd (login_google sample_env None None sample_request empty_world))) =
     respond 200 (JObj [(''userEmail'', JV ?e),
                        (''balance'', JV (JNum (Fin 0))), (''earnings'', JV (JNum (Fin 0)))])"
    using first_wallet_after_upsert_is_zero [OF none g sample_authorized em] by simp
  show ?thesis
    using none g sample_authorized em row after wallet by (intro conjI)
qed

subsection \<open>Shaping with defaults\<close>

lemma shape_trade_pnl_number: "\<exists>x. pnl (shape_trade row) = JNum x \<and> x \<noteq> NaN"
  by (simp add: shape_trade_def Let_def isNaN_num_def)

lemma shape_trade_pnl_default:
  "\<not> truthy (idx row 3) \<or> parseFloat (idx row 3) = NaN \<Longrightarrow> pnl (shape_trade row) = JNum (Fin 0)"
  by (auto simp: shape_trade_def Let_def isNaN_num_def js_or_def parseFloat_zero)

lemma opt_toString_missing: "c \<in> {JUndefined, JNull, JStr []} \<Longrightarrow> \<not> truthy (opt_toString c)"
  by (auto simp: opt_toString_def js_toString_def)

lemma shape_trade_symbol_default:
  "idx row 1 \<in> {JUndefined, JNull, JStr []} \<Longrightarrow> symbol (shape_trade row) = JStr ''GOLD''"
  using opt_toString_missing [of "idx row 1"] by (simp add: shape_trade_def js_or_def)

lemma shape_trade_direction_default:
  "idx row 2 \<in> {JUndefined, JNull, JStr []} \<Longrightarrow> direction (shape_trade row) = JStr ''BUY''"
  using opt_toString_missing [of "idx row 2"] by (simp add: shape_trade_def js_or_def)

lemma trade_history_status:
  "status (fst (trade_history_handler E (Inr vs) user w)) = 200"
  by (cases vs) (simp_all add: trade_history_handler_def values_get_def respond_def)

lemma wallet_status: "status (fst (wallet_data_handler None user w)) = 200"
  by (simp add: wallet_handler_eq respond_def)

lemma wallet_missing_cells:
  assumes "find (\<lambda>row. strict_eq (idx row 1) (email user)) (user_balance w) = Some r"
  shows "(\<not> truthy (idx r 6) \<longrightarrow>
            (\<exists>earnings. fst (wallet_data_handler None user w) =
               respond 200 (wallet_json (email user) (Fin 0) earnings))) \<and>
         (\<not> truthy (idx r 5) \<longrightarrow>
            (\<exists>balance. fst (wallet_data_handler None user w) =
               respond 200 (wallet_json (email user) balance (Fin 0))))"
  using assms by (auto simp: wallet_handler_eq opt_idx_def js_or_def parseFloat_zero)

text \<open>
  Claim C9: whatever cells the spreadsheet returns, shaping a trade-history or wallet-data
  response never fails: once the read has succeeded the answer has status 200; a trade's
  pnl is always a number other than \<open>NaN\<close>, and is 0 when the pnl cell is missing,
  empty or not numeric; a missing or empty symbol or direction cell gives the default
  \<open>GOLD\<close> or \<open>BUY\<close>; and a missing or empty balance or earnings cell of the user's
  row gives 0.
\<close>

theorem shaping_defaults_never_fail:
  "status (fst (trade_history_handler E (Inr vs) user w)) = 200 \<and>
   (\<exists>x. pnl (shape_trade row) = JNum x \<and> x \<noteq> NaN) \<and>
   (\<not> truthy (idx row 3) \<or> parseFloat (idx row 3) = NaN \<longrightarrow> pnl (shape_trade row) = JNum (Fin 0)) \<and>
   (idx row 1 \<in> {JUndefined, JNull, JStr []} \<longrightarrow> symbol (shape_trade row) = JStr ''GOLD'') \<and>
   (idx row 2 \<in> {JUndefined, JNull, JStr []} \<longrightarrow> direction (shape_trade row) = JStr ''BUY'') \<and>
   status (fst (wallet_data_handler None user w)) = 200 \<and>
   (find (\<lambda>row. strict_eq (idx row 1) (email user)) (user_balance w) = Some r \<longrightarrow>
      (\<not> truthy (idx r 6) \<longrightarrow>
         (\<exists>earnings. fst (wallet_data_handler None user w) =
            respond 200 (wallet_json (email user) (Fin 0) earnings))) \<and>
      (\<not> truthy (idx r 5) \<longrightarrow>
         (\<exists>balance. fst (wallet_data_handler None user w) =
            respond 200 (wallet_json (email user) balance (Fin 0)))))"
  using trade_history_status [of E vs user w] shape_trade_pnl_number [of row]
    shape_trade_pnl_default [of row] shape_trade_symbol_default [of row]
    shape_trade_direction_default [of row] wallet_status [of user w]
    wallet_missing_cells [of user w r]
  by blast

subsection \<open>Profit-and-loss points\<close>

lemma dec_digits_nonempty: "dec_digits n \<noteq> []"
  by (subst dec_digits.simps) simp

lemma digit_char_is_digit: "is_digit (digit_char d)"
  unfolding digit_char_def is_digit_def by (rule nth_mem) simp

lemma dec_digits_all_digits: "\<forall>c\<in>set (dec_digits n). is_digit c"
proof (induction n rule: dec_digits.induct)
  case (1 n)
  show ?case
  proof (cases "n < 10")
    case True
    then show ?thesis by (subst dec_digits.simps) (simp add: digit_char_is_digit)
  next
    case False
    then show ?thesis
      using "1.IH" by (subst dec_digits.simps) (simp add: digit_char_is_digit)
  qed
qed

lemma dot_not_digit: "\<not> is_digit CHR ''.''"
  by (simp add: is_digit_def)

lemma minus_not_digit: "\<not> is_digit CHR ''-''"
  by (simp add: is_digit_def)

lemma two_decimals_digits:
  assumes a: "a \<noteq> []" "\<forall>c\<in>set a. is_digit c" and x: "is_digit x" and y: "is_digit y"
  shows "two_decimals (a @ [CHR ''.'', x, y])" and "two_decimals (CHR ''-'' # a @ [CHR ''.'', x, y])"
proof -
  obtain h t where ht: "a = h # t" using a(1) by (cases a) auto
  have h: "h \<noteq> CHR ''-''" using a(2) ht minus_not_digit by auto
  have tw: "takeWhile is_digit (a @ [CHR ''.'', x, y]) = a"
    using a(2) dot_not_digit by (simp add: takeWhile_append2)
  have dw: "dropWhile is_digit (a @ [CHR ''.'', x, y]) = [CHR ''.'', x, y]"
    using a(2) dot_not_digit by (simp add: dropWhile_append2)
  show "two_decimals (a @ [CHR ''.'', x, y])"
    using tw dw a(1) x y h unfolding two_decimals_def ht by (simp add: ht)
  show "two_decimals (CHR ''-'' # a @ [CHR ''.'', x, y])"
    using tw dw a(1) x y unfolding two_decimals_def by simp
qed


lemma length_two: "length ys = 2 \<Longrightarrow> \<exists>x y. ys = [x, y]"
  by (cases ys; cases "tl ys") auto

lemma split_last_two:
  assumes "3 \<le> length xs"
  obtains a x y where "a \<noteq> []" "take (length xs - 2) xs = a" "drop (length xs - 2) xs = [x, y]"
    "xs = a @ [x, y]"
proof -
  let ?k = "length xs - 2"
  have "length (drop ?k xs) = 2" using assms by simp
  then obtain x y where d: "drop ?k xs = [x, y]"
    using length_two by blast
  have t: "take ?k xs \<noteq> []" using assms by auto
  have "xs = take ?k xs @ [x, y]"
    using append_take_drop_id [of ?k xs] d by simp
  with t d show ?thesis using that by blast
qed

lemma toFixed_two_decimals:
  assumes "\<bar>q\<bar> < 10 ^ 21"
  shows "two_decimals (toFixed 2 (Fin q))"
proof -
  define pad :: "string \<Rightarrow> string"
    where "pad m = (if length m \<le> 2 then replicate (3 - length m) CHR ''0'' @ m else m)" for m
  define point :: "string \<Rightarrow> string"
    where "point m = take (length m - 2) m @ ''.'' @ drop (length m - 2) m" for m
  define n where "n = nat \<lfloor>\<bar>q\<bar> * 10 ^ 2 + 1 / 2\<rfloor>"
  define m where "m = pad (dec_digits n)"
  have small: "\<not> 10 ^ 21 \<le> \<bar>q\<bar>"
    using assms by (simp only: not_le)
  have shape: "toFixed 2 (Fin q) = (if q < 0 then ''-'' else []) @ point m"
    unfolding toFixed_def Let_def jsnum.case if_not_P [OF small] n_def [symmetric]
    by (simp add: pad_def point_def m_def)
  have zero: "is_digit CHR ''0''" by (simp add: is_digit_def)
  have md: "\<forall>c\<in>set m. is_digit c"
    using dec_digits_all_digits zero by (auto simp: m_def pad_def)
  have len: "3 \<le> length m" by (auto simp: m_def pad_def)
  obtain a x y where a: "a \<noteq> []" and t: "take (length m - 2) m = a"
    and d: "drop (length m - 2) m = [x, y]" and eq: "m = a @ [x, y]"
    using split_last_two [OF len] by blast
  have ad: "\<forall>c\<in>set a. is_digit c" and x: "is_digit x" and y: "is_digit y"
    using md eq by auto
  have "point m = a @ [CHR ''.'', x, y]"
    using t d by (simp add: point_def)
  then show ?thesis
    using two_decimals_digits [OF a ad x y] shape by (cases "q < 0") simp_all
qed

lemma toFixed_zero: "toFixed 2 (Fin 0) = ''0.00''"
  by (simp add: toFixed_def dec_digits.simps digit_char_def)

lemma toFixed_NaN: "toFixed 2 NaN = ''NaN''"
  by (simp add: toFixed_def Number_toString_def)

lemma slice_last_length: "length (slice_last n xs) \<le> n"
  by (simp add: slice_last_def)

lemma pnl_data_handler_rows:
  "fst (pnl_data_handler (Inr (Some rows)) user w) =
     respond 200 (JArr (slice_last 20 (map pnl_point
        (filter (\<lambda>row. truthy (idx row 0) \<and> \<not> strict_eq (idx row 3) JUndefined) rows))))"
  by (simp add: pnl_data_handler_def values_get_def)

text \<open>
  Claim C6, amended: in the variants that protect the endpoint, for every sequence of
  spreadsheet rows, pnl-data answers an authorized request with the last 20 (all, when
  there are fewer) of the rows that have a truthy date cell and a pnl cell, each as a
  (date, pnl) pair; and the pnl of a pair is printed with exactly two decimals whenever
  its cell, or 0 for an empty cell, parses to a finite number below \<open>10 ^ 21\<close> in
  magnitude.
\<close>

theorem pnl_data_last_twenty:
  assumes "authenticateToken E req = Inr user"
  shows "fst (pnl_data E (Inr (Some rows)) req w) =
           respond 200 (JArr (slice_last 20 (map pnl_point
              (filter (\<lambda>row. truthy (idx row 0) \<and> \<not> strict_eq (idx row 3) JUndefined) rows)))) \<and>
         length (slice_last 20 (map pnl_point
              (filter (\<lambda>row. truthy (idx row 0) \<and> \<not> strict_eq (idx row 3) JUndefined) rows))) \<le> 20 \<and>
         (\<forall>row q. parseFloat (js_or (idx row 3) (JNum (Fin 0))) = Fin q \<longrightarrow> \<bar>q\<bar> < 10 ^ 21 \<longrightarrow>
            (\<exists>s. pnl_point row = JObj [(''date'', JV (idx row 0)), (''pnl'', JV (JStr s))] \<and>
                 two_decimals s)) \<and>
         fst (pnl_data E (Inr None) req w) = respond 200 (JArr [])"
proof -
  have "fst (pnl_data E (Inr None) req w) = respond 200 (JArr [])"
    using assms by (simp add: pnl_data_def protected_authorized pnl_data_handler_def values_get_def)
  moreover
  have "fst (pnl_data E (Inr (Some rows)) req w) =
           respond 200 (JArr (slice_last 20 (map pnl_point
              (filter (\<lambda>row. truthy (idx row 0) \<and> \<not> strict_eq (idx row 3) JUndefined) rows))))"
    using assms by (simp add: pnl_data_def protected_authorized pnl_data_handler_rows)
  moreover have "\<exists>s. pnl_point row = JObj [(''date'', JV (idx row 0)), (''pnl'', JV (JStr s))] \<and>
                  two_decimals s"
    if "parseFloat (js_or (idx row 3) (JNum (Fin 0))) = Fin q" and "\<bar>q\<bar> < 10 ^ 21" for row q
    using toFixed_two_decimals [OF that(2)] that(1) by (simp add: pnl_point_def)
  ultimately show ?thesis
    using slice_last_length by blast
qed


text \<open>The claim leaves out a balance or earnings cell that holds text: it is answered
  as \<open>NaN\<close>, a number still, and no error.\<close>

lemma wallet_text_cell_is_NaN:
  assumes "find (\<lambda>row. strict_eq (idx row 1) (email user)) (user_balance w) = Some r"
    and "idx r 6 = JStr ''n/a''"
  shows "\<exists>earnings. fst (wallet_data_handler None user w) =
           respond 200 (wallet_json (email user) NaN earnings)"
  using assms by (auto simp: wallet_handler_eq opt_idx_def js_or_def parseFloat_not_available)

theorem shaping_defaults_never_fail_witness:
  "parseFloat (idx text_row 3) = NaN \<and> idx text_row 1 = JStr [] \<and>
   idx short_row 2 = JUndefined \<and> \<not> truthy (idx short_row 3) \<and>
   shape_trade text_row =
     \<lparr>timestamp = JStr ''2024-01-02'', symbol = JStr ''GOLD'', direction = JStr ''SELL'',
      pnl = JNum (Fin 0)\<rparr> \<and>
   shape_trade short_row =
     \<lparr>timestamp = JStr ''2024-01-03'', symbol = JStr ''OIL'', direction = JStr ''BUY'',
      pnl = JNum (Fin 0)\<rparr> \<and>
   status (fst (trade_history_handler sample_env (Inr (Some [text_row, short_row])) sample_user
                  empty_world)) = 200 \<and>
   find (\<lambda>row. strict_eq (idx row 1) (email sample_user)) [new_user_row] = Some new_user_row \<and>
   \<not> truthy (idx new_user_row 6) \<and> \<not> truthy (idx new_user_row 5) \<and>
   fst (wallet_data_handler None sample_user (empty_world\<lparr>user_balance := [new_user_row]\<rparr>)) =
     respond 200 (wallet_json (JStr ''ann@example.com'') (Fin 0) (Fin 0))"
proof -
  let ?w = "empty_world\<lparr>user_balance := [new_user_row]\<rparr>"
  let ?vs = "Some [text_row, short_row]"
  have p: "parseFloat (idx text_row 3) = NaN"
    by (simp add: text_row_def idx_def parseFloat_not_available)
  have s1: "idx text_row 1 = JStr []" and d2: "idx short_row 2 = JUndefined"
    and p2: "\<not> truthy (idx short_row 3)"
    by (simp_all add: text_row_def short_row_def idx_def)
  have f: "find (\<lambda>row. strict_eq (idx row 1) (email sample_user)) (user_balance ?w) = Some new_user_row"
    by (simp add: new_user_row_def sample_user_def idx_def)
  have f': "find (\<lambda>row. strict_eq (idx row 1) (email sample_user)) [new_user_row] = Some new_user_row"
    using f by simp
  have c: "\<not> truthy (idx new_user_row 6)" "\<not> truthy (idx new_user_row 5)"
    by (simp_all add: new_user_row_def idx_def)
  note t1 = shaping_defaults_never_fail [of sample_env ?vs sample_user ?w text_row new_user_row]
  note t2 = shaping_defaults_never_fail [of sample_env ?vs sample_user ?w short_row new_user_row]
  have a1: "pnl (shape_trade text_row) = JNum (Fin 0)"
    using t1 p by blast
  have a2: "symbol (shape_trade text_row) = JStr ''GOLD''"
    using t1 s1 by blast
  have a3: "pnl (shape_trade short_row) = JNum (Fin 0)"
    using t2 p2 by blast
  have a4: "direction (shape_trade short_row) = JStr ''BUY''"
    using t2 d2 by blast
  have r1: "shape_trade text_row =
     \<lparr>timestamp = JStr ''2024-01-02'', symbol = JStr ''GOLD'', direction = JStr ''SELL'',
      pnl = JNum (Fin 0)\<rparr>"
    using a1 a2
    by (simp add: shape_trade_def text_row_def idx_def opt_toString_def js_toString_def js_or_def)
  have r2: "shape_trade short_row =
     \<lparr>timestamp = JStr ''2024-01-03'', symbol = JStr ''OIL'', direction = JStr ''BUY'',
      pnl = JNum (Fin 0)\<rparr>"
    using a3 a4
    by (simp add: shape_trade_def short_row_def idx_def opt_toString_def js_toString_def js_or_def)
  have st: "status (fst (trade_history_handler sample_env (Inr ?vs) sample_user empty_world)) = 200"
    by (simp add: trade_history_status)
  obtain earnings where e: "fst (wallet_data_handler None sample_user ?w) =
      respond 200 (wallet_json (email sample_user) (Fin 0) earnings)"
    using t1 f c(1) by blast
  obtain balance where b: "fst (wallet_data_handler None sample_user ?w) =
      respond 200 (wallet_json (email sample_user) balance (Fin 0))"
    using t1 f c(2) by blast
  have "earnings = Fin 0"
    using e b by (simp add: respond_def wallet_json_def)
  then have wl: "fst (wallet_data_handler None sample_user ?w) =
     respond 200 (wallet_json (JStr ''ann@example.com'') (Fin 0) (Fin 0))"
    using e by (simp add: sample_user_def)
  show ?thesis
    using p s1 d2 p2 r1 r2 st f' c wl by (intro conjI)
qed

theorem pnl_data_last_twenty_witness:
  "authenticateToken sample_env sample_request = Inr sample_user \<and>
   fst (pnl_data sample_env (Inr (Some (replicate 21 flat_row @ [short_row]))) sample_request empty_world) =
     respond 200 (JArr (replicate 20
        (JObj [(''date'', JV (JStr ''2024-01-02'')), (''pnl'', JV (JStr ''0.00''))]))) \<and>
   parseFloat (js_or (idx flat_row 3) (JNum (Fin 0))) = Fin 0 \<and>
   two_decimals ''0.00''"
proof -
  have keep: "truthy (idx flat_row 0) \<and> \<not> strict_eq (idx flat_row 3) JUndefined"
    and drp: "strict_eq (idx short_row 3) JUndefined"
    by (simp_all add: flat_row_def short_row_def idx_def)
  have p: "parseFloat (js_or (idx flat_row 3) (JNum (Fin 0))) = Fin 0"
    by (simp add: flat_row_def idx_def js_or_def parseFloat_zero)
  have pt: "pnl_point flat_row =
      JObj [(''date'', JV (JStr ''2024-01-02'')), (''pnl'', JV (JStr ''0.00''))]"
    using p by (simp add: pnl_point_def toFixed_zero) (simp add: flat_row_def idx_def)
  note t = pnl_data_last_twenty [OF sample_authorized, of "replicate 21 flat_row @ [short_row]" empty_world]
  have "\<bar>0::rat\<bar> < 10 ^ 21" by simp
  then have "\<exists>s. pnl_point flat_row = JObj [(''date'', JV (idx flat_row 0)), (''pnl'', JV (JStr s))] \<and>
                two_decimals s"
    using conjunct1 [OF conjunct2 [OF conjunct2 [OF t]], rule_format, OF p] by blast
  then have two: "two_decimals ''0.00''"
    using pt by auto
  have "fst (pnl_data sample_env (Inr (Some (replicate 21 flat_row @ [short_row]))) sample_request empty_world) =
     respond 200 (JArr (replicate 20
        (JObj [(''date'', JV (JStr ''2024-01-02'')), (''pnl'', JV (JStr ''0.00''))])))"
    using t keep drp by (simp add: slice_last_def pt)
  then show ?thesis
    using sample_authorized p two by simp
qed

text \<open>
  Claim C6, as stated: for every sequence of rows, pnl-data returns at most the last 20
  (date, pnl) pairs, each pnl formatted to 2 decimal places. A pnl cell holding text makes
  the protected endpoint answer the pnl \<open>NaN\<close>; and the first variant of the
  server answers 21 rows with 21 pairs, whose pnl is a number or \<open>null\<close>, never
  a formatted string.
\<close>

theorem pnl_data_unformatted_or_unbounded:
  "fst (pnl_data sample_env (Inr (Some [text_row])) sample_request empty_world) =
     respond 200 (JArr [JObj [(''date'', JV (JStr ''2024-01-02'')), (''pnl'', JV (JStr ''NaN''))]]) \<and>
   \<not> two_decimals ''NaN'' \<and>
   pnl_data_v1 anonymous_request (Inr (Some (replicate 21 short_row))) =
     respond 200 (JArr (replicate 21
        (JObj [(''date'', JV (JStr ''2024-01-03'')), (''pnl'', JV JNull)]))) \<and>
   20 < length (replicate 21 (JObj [(''date'', JV (JStr ''2024-01-03'')), (''pnl'', JV JNull)]))"
proof -
  have "fst (pnl_data sample_env (Inr (Some [text_row])) sample_request empty_world) =
     respond 200 (JArr [JObj [(''date'', JV (JStr ''2024-01-02'')), (''pnl'', JV (JStr ''NaN''))]])"
    by (simp add: pnl_data_def protected_authorized [OF sample_authorized] pnl_data_handler_rows)
       (simp add: text_row_def idx_def slice_last_def pnl_point_def js_or_def
          parseFloat_not_available toFixed_NaN)
  moreover have "\<not> two_decimals ''NaN''"
    by (simp add: two_decimals_def is_digit_def)
  moreover have "pnl_data_v1 anonymous_request (Inr (Some (replicate 21 short_row))) =
     respond 200 (JArr (replicate 21
        (JObj [(''date'', JV (JStr ''2024-01-03'')), (''pnl'', JV JNull)])))"
    by (simp add: pnl_data_v1_def pnl_point_v1_def short_row_def idx_def)
  ultimately show ?thesis by simp
qed

subsection \<open>The performance snapshot and its cache\<close>

lemma formattedResult_truthy: "if_cached (Some (formattedResult r)) = Some (formattedResult r)"
  by (simp add: if_cached_def formattedResult_def)

lemma resume_success:
  "performance_data_resume cd (Inr (Some (r # rs))) t w0 =
     (respond 200 (formattedResult r),
      w0\<lparr>cache := cache_set t ''performance-data'' (formattedResult r) 30 (cache w0)\<rparr>)"
  by (simp add: performance_data_resume_def)

lemma cache_get_fresh:
  "now \<le> t + 30000 \<Longrightarrow>
   cache_get now k (cache_set t k v 30 c) = (Some v, cache_set t k v 30 c)"
  by (simp add: cache_get_def cache_set_def)

lemma cache_get_expired:
  "t + 30000 < now \<Longrightarrow> fst (cache_get now k (cache_set t k v 30 c)) = None"
  by (simp add: cache_get_def cache_set_def)

lemma begin_hit:
  assumes "cache w = cache_set t ''performance-data'' (formattedResult r) 30 c"
    and "now \<le> t + 30000"
  shows "performance_data_begin now w =
           ((Some (formattedResult r), Some (respond 200 (formattedResult r))), w)"
  using assms cache_get_fresh [OF assms(2), of "''performance-data''" "formattedResult r" c]
  by (simp add: performance_data_begin_def formattedResult_truthy)

lemma begin_miss:
  assumes "cache w = cache_set t ''performance-data'' v 30 c" and "t + 30000 < now"
  shows "snd (fst (performance_data_begin now w)) = None \<and>
         sheet_reads (snd (performance_data_begin now w)) = sheet_reads w + 1"
  using assms cache_get_expired [OF assms(2), of "''performance-data''" v c]
  by (cases "cache_get now ''performance-data'' (cache w)")
     (simp add: performance_data_begin_def if_cached_def)

lemma catch_reads: "sheet_reads (snd (performance_data_catch m now w)) = sheet_reads w"
  by (cases "cache_get now ''performance-data'' (cache w)")
     (simp add: performance_data_catch_def split: option.splits)

lemma resume_reads: "sheet_reads (snd (performance_data_resume cd rd now w)) = sheet_reads w"
  by (simp add: performance_data_resume_def catch_reads split: sum.splits option.splits list.splits)

lemma handler_hit:
  assumes "cache w = cache_set t ''performance-data'' (formattedResult r) 30 c"
    and "now \<le> t + 30000"
  shows "performance_data_handler now rd t1 user w = (respond 200 (formattedResult r), w)"
  by (simp add: performance_data_handler_def begin_hit [OF assms])

lemma handler_miss_reads:
  assumes "cache w = cache_set t ''performance-data'' v 30 c" and "t + 30000 < now"
  shows "sheet_reads (snd (performance_data_handler now rd t1 user w)) = sheet_reads w + 1"
proof -
  obtain cd res w1 where b: "performance_data_begin now w = ((cd, res), w1)"
    by (metis prod.exhaust)
  with begin_miss [OF assms] have "res = None" "sheet_reads w1 = sheet_reads w + 1"
    by simp_all
  then show ?thesis
    using b by (simp add: performance_data_handler_def resume_reads)
qed

lemma serve_within_window:
  assumes "cache w = cache_set t ''performance-data'' (formattedResult r) 30 c"
    and "\<forall>q\<in>set qs. (\<exists>u. authenticateToken E (pr_request q) = Inr u) \<and> pr_lookup q \<le> t + 30000"
  shows "serve_performance E qs w = (replicate (length qs) (respond 200 (formattedResult r)), w)"
  using assms(2)
proof (induction qs)
  case Nil
  then show ?case by simp
next
  case (Cons q qs)
  then obtain u where u: "authenticateToken E (pr_request q) = Inr u"
    and l: "pr_lookup q \<le> t + 30000" by auto
  have "performance_data E (pr_lookup q) (pr_read q) (pr_settled q) (pr_request q) w =
          (respond 200 (formattedResult r), w)"
    by (simp add: performance_data_def protected_authorized [OF u] handler_hit [OF assms(1) l])
  then show ?case using Cons by simp
qed

text \<open>
  Claim C2: when a fetch of the performance endpoint succeeds at time \<open>t\<close>
  (milliseconds), the authorized requests served after it, one after another, that look
  the cache up no later than \<open>t + 30000\<close> all get the response of that fetch, and no
  spreadsheet read is issued for them: the state, the count of reads included, stays as
  the fetch left it. An authorized request that looks the cache up later than
  \<open>t + 30000\<close> issues a fresh read.
\<close>

theorem performance_cache_window:
  assumes "performance_data_resume cd (Inr (Some (r # rs))) t w0 = (res, w)"
    and "\<forall>q\<in>set qs. (\<exists>u. authenticateToken E (pr_request q) = Inr u) \<and> pr_lookup q \<le> t + 30000"
    and "authenticateToken E req = Inr user"
    and "t + 30000 < t0"
  shows "serve_performance E qs w = (replicate (length qs) res, w) \<and>
         sheet_reads (snd (performance_data E t0 rd t1 req w)) = sheet_reads w + 1"
proof -
  have res: "res = respond 200 (formattedResult r)"
    and w: "cache w = cache_set t ''performance-data'' (formattedResult r) 30 (cache w0)"
    using assms(1) by (auto simp: resume_success)
  show ?thesis
    using serve_within_window [OF w assms(2)] handler_miss_reads [OF w assms(4)] assms(3)
    by (simp add: res performance_data_def protected_authorized)
qed

lemma catch_hit:
  assumes "cache w = cache_set t ''performance-data'' (formattedResult r) 30 c"
    and "now \<le> t + 30000"
  shows "fst (performance_data_catch m now w) = respond 200 (formattedResult r)"
  using assms cache_get_fresh [OF assms(2), of "''performance-data''" "formattedResult r" c]
  by (simp add: performance_data_catch_def formattedResult_truthy)

lemma catch_miss:
  assumes "if_cached (fst (cache_get now ''performance-data'' (cache w))) = None"
  shows "status (fst (performance_data_catch m now w)) = 500"
  using assms
  by (cases "cache_get now ''performance-data'' (cache w)")
     (simp add: performance_data_catch_def respond_def)

lemma resume_failed:
  assumes "read_failed rd" and "if_cached cd = None"
  shows "\<exists>m. performance_data_resume cd rd now w = performance_data_catch m now w"
  using assms
  by (auto simp: read_failed_def performance_data_resume_def split: sum.splits option.splits list.splits)

lemma cache_get_again:
  assumes "cache_get t0 k c0 = (cd, c)" and "if_cached cd = None"
  shows "if_cached (fst (cache_get t1 k c)) = None"
  using assms
  by (auto simp: cache_get_def if_cached_def split: option.splits if_splits)

text \<open>
  A request served without overlap reads the spreadsheet only after it has missed the
  cache, so its failed read finds the cache empty again: the value the fallback serves is
  one that another request, running during the read, has cached.
\<close>

lemma failure_without_overlap_is_error:
  assumes "performance_data_begin t0 w = ((cd, None), w1)" and "read_failed rd"
  shows "status (fst (performance_data_resume cd rd t1 w1)) = 500"
proof -
  obtain cd' c where g: "cache_get t0 ''performance-data'' (cache w) = (cd', c)"
    by (metis prod.exhaust)
  have cd: "cd' = cd" "if_cached cd = None" "cache w1 = c"
    using assms(1) g by (auto simp: performance_data_begin_def split: option.splits)
  have "if_cached (fst (cache_get t1 ''performance-data'' (cache w1))) = None"
    using cache_get_again [of t0 "''performance-data''" "cache w" cd c t1] g cd by simp
  then show ?thesis
    using resume_failed [OF assms(2) cd(2), of t1 w1] catch_miss by auto
qed


text \<open>
  Claim C3: after a successful fetch at time \<open>t\<close>, a request whose spreadsheet read
  fails (it is rejected, or answers without a first row) while the fetched value is still
  cached, that is up to \<open>t + 30000\<close>, is answered with that value instead of an
  error, whether the failure is met when the read settles or the request is served whole
  while the spreadsheet is failing; and whenever the cache holds no value at the time of
  the failure, as for a request served whole after \<open>t + 30000\<close>, the answer is an
  error of status 500.
\<close>

theorem performance_stale_on_error:
  assumes "performance_data_resume cd0 (Inr (Some (r # rs))) t w0 = (res, w)"
    and "read_failed rd" and "if_cached cd = None"
  shows "(now \<le> t + 30000 \<longrightarrow> fst (performance_data_resume cd rd now w) = res) \<and>
         (t0 \<le> t + 30000 \<longrightarrow> fst (performance_data_handler t0 rd t1 user w) = res) \<and>
         (t + 30000 < t0 \<longrightarrow> status (fst (performance_data_handler t0 rd t1 user w)) = 500) \<and>
         (\<forall>w'. if_cached (fst (cache_get now ''performance-data'' (cache w'))) = None \<longrightarrow>
               status (fst (performance_data_resume cd rd now w')) = 500)"
proof -
  have res: "res = respond 200 (formattedResult r)"
    and w: "cache w = cache_set t ''performance-data'' (formattedResult r) 30 (cache w0)"
    using assms(1) by (auto simp: resume_success)
  have "fst (performance_data_resume cd rd now w) = res" if "now \<le> t + 30000"
    using resume_failed [OF assms(2,3), of now w] catch_hit [OF w that] res by auto
  moreover have "fst (performance_data_handler t0 rd t1 user w) = res" if "t0 \<le> t + 30000"
    using handler_hit [OF w that] res by simp
  moreover have "status (fst (performance_data_handler t0 rd t1 user w)) = 500" if "t + 30000 < t0"
  proof -
    obtain cd' res' w1 where b: "performance_data_begin t0 w = ((cd', res'), w1)"
      by (metis prod.exhaust)
    with begin_miss [OF w that] have "res' = None" by simp
    with b show ?thesis
      using failure_without_overlap_is_error [OF _ assms(2), of t0 w cd' w1 t1]
      by (simp add: performance_data_handler_def)
  qed
  moreover have "status (fst (performance_data_resume cd rd now w')) = 500"
    if "if_cached (fst (cache_get now ''performance-data'' (cache w'))) = None" for w'
    using resume_failed [OF assms(2,3), of now w'] catch_miss [OF that] by auto
  ultimately show ?thesis by blast
qed

lemma Math_round_zero: "Math_round (Fin 0) = Fin 0"
proof -
  have "\<lfloor>(1::rat) / 2\<rfloor> = 0" by (rule floor_unique) simp_all
  then show ?thesis by (simp add: Math_round_def)
qed

lemma zero_payload_formatted: "formattedResult zero_summary = zero_payload"
  by (simp add: formattedResult_def zero_summary_def idx_def js_or_def parseFloat_zero toFixed_zero
      Math_round_zero zero_payload_def)

lemma sample_fetch:
  "performance_data_resume None (Inr (Some [zero_summary])) 1000 empty_world =
     (respond 200 zero_payload, cached_world)"
  by (simp add: resume_success zero_payload_formatted cached_world_def cache_set_def empty_world_def)

theorem performance_cache_window_witness:
  "performance_data_resume None (Inr (Some [zero_summary])) 1000 empty_world =
     (respond 200 zero_payload, cached_world) \<and>
   authenticateToken sample_env sample_request = Inr sample_user \<and>
   serve_performance sample_env [failing_request 2000, failing_request 31000] cached_world =
     ([respond 200 zero_payload, respond 200 zero_payload], cached_world) \<and>
   sheet_reads cached_world = 0 \<and>
   sheet_reads (snd (performance_data sample_env 31001 (Inl quota_error) 31200 sample_request
                       cached_world)) = 1"
proof -
  let ?qs = "[failing_request 2000, failing_request 31000]"
  have qs: "\<forall>q\<in>set ?qs. (\<exists>u. authenticateToken sample_env (pr_request q) = Inr u) \<and>
                          pr_lookup q \<le> 1000 + 30000"
    by (simp add: failing_request_def sample_authorized)
  have late: "(1000::nat) + 30000 < 31001" by simp
  have zero: "sheet_reads cached_world = 0"
    by (simp add: cached_world_def empty_world_def)
  note t = performance_cache_window [OF sample_fetch qs sample_authorized late,
      of "Inl quota_error" 31200]
  have a: "serve_performance sample_env ?qs cached_world =
     ([respond 200 zero_payload, respond 200 zero_payload], cached_world)"
    using t by (simp add: numeral_2_eq_2)
  have b: "sheet_reads (snd (performance_data sample_env 31001 (Inl quota_error) 31200 sample_request
                       cached_world)) = 1"
    using t zero by simp
  show ?thesis
    using sample_fetch sample_authorized a zero b by (intro conjI)
qed

theorem performance_stale_on_error_witness:
  "performance_data_resume None (Inr (Some [zero_summary])) 1000 empty_world =
     (respond 200 zero_payload, cached_world) \<and>
   read_failed (Inl quota_error) \<and> if_cached None = None \<and>
   fst (performance_data_resume None (Inl quota_error) 2000 cached_world) = respond 200 zero_payload \<and>
   fst (performance_data_handler 2000 (Inl quota_error) 2200 sample_user cached_world) =
     respond 200 zero_payload \<and>
   status (fst (performance_data_handler 31001 (Inl quota_error) 31200 sample_user cached_world)) = 500 \<and>
   if_cached (fst (cache_get 2000 ''performance-data'' (cache empty_world))) = None \<and>
   status (fst (performance_data_resume None (Inl quota_error) 2000 empty_world)) = 500"
proof -
  have f: "read_failed (Inl quota_error)" by (simp add: read_failed_def)
  have n: "if_cached None = None" by (simp add: if_cached_def)
  have e: "if_cached (fst (cache_get 2000 ''performance-data'' (cache empty_world))) = None"
    by (simp add: empty_world_def cache_get_def if_cached_def)
  note t1 = performance_stale_on_error [OF sample_fetch f n, of 2000 2000 2200 sample_user]
  note t2 = performance_stale_on_error [OF sample_fetch f n, of 2000 31001 31200 sample_user]
  have a: "fst (performance_data_resume None (Inl quota_error) 2000 cached_world) = respond 200 zero_payload"
    using t1 by simp
  have b: "fst (performance_data_handler 2000 (Inl quota_error) 2200 sample_user cached_world) =
     respond 200 zero_payload"
    using t1 by simp
  have c: "status (fst (performance_data_handler 31001 (Inl quota_error) 31200 sample_user cached_world)) = 500"
    using t2 by simp
  have d: "status (fst (performance_data_resume None (Inl quota_error) 2000 empty_world)) = 500"
    using t1 e by blast
  show ?thesis
    using sample_fetch f n a b c e d by (intro conjI)
qed

subsection \<open>Authorization\<close>

text \<open>
  In the variant with the balance sheet, and in the third one, a request without a bearer
  token is answered 401 and one whose token the verifier rejects 403, by the middleware
  alone: the handler is not run, and the state is untouched, so nothing is read from the
  spreadsheet.
\<close>

lemma authenticateToken_rejects:
  "\<not> truthy (bearer_token (authorization req)) \<Longrightarrow>
     authenticateToken E req = Inl (respond 401 (json_error ''No token provided''))"
  "truthy (bearer_token (authorization req)) \<Longrightarrow>
   verify_value E (bearer_token (authorization req)) = None \<Longrightarrow>
     authenticateToken E req = Inl (respond 403 (json_error ''Invalid token''))"
  by (simp_all add: authenticateToken_def)

lemma protected_rejects:
  assumes "authenticateToken E req = Inl r"
  shows "verify_token E req w = (r, w)"
    and "performance_data E t0 rd t1 req w = (r, w)"
    and "trade_history E rd req w = (r, w)"
    and "pnl_data E rd req w = (r, w)"
    and "wallet_data E fault req w = (r, w)"
    and "signup E get_fault append_fault req w = (r, w)"
  using assms
  by (simp_all add: verify_token_def performance_data_def trade_history_def pnl_data_def
      wallet_data_def signup_def protected_def)

lemma authenticateToken_v3_rejects:
  "\<not> truthy (bearer_token (authorization req)) \<Longrightarrow>
     authenticateToken_v3 E req = Inl (respond 401 (json_error ''No token provided''))"
  "truthy (bearer_token (authorization req)) \<Longrightarrow>
   verify_value E (bearer_token (authorization req)) = None \<Longrightarrow>
     authenticateToken_v3 E req = Inl (respond 403 (json_error ''Invalid token''))"
  by (simp_all add: authenticateToken_v3_def)

text \<open>The first variant's routes never look at the request.\<close>

lemma performance_data_v1_ignores_request:
  "performance_data_v1 req r = performance_data_v1 anonymous_request r"
  by (simp add: performance_data_v1_def)

text \<open>
  Claim C1 asks that a request to a protected endpoint without a bearer token be answered
  401 and get no spreadsheet data. The first variant of the server defines the middleware
  that would do so, and answers the request to its performance endpoint with status 200
  and the cells of the sheet.
\<close>

theorem performance_data_v1_answers_without_token:
  "bearer_token (authorization anonymous_request) = JUndefined \<and>
   authenticateToken_v1 jwt_verify anonymous_request =
     Inl (respond 401 (json_error ''No token provided'')) \<and>
   performance_data_v1 anonymous_request (Inr (Some overview_rows)) =
     respond 200 (JArr
       [JObj [(''title'', JV (JStr ''This Week PNL'')), (''value'', JV (JStr ''120'')),
              (''change'', JV (JStr ''2%''))],
        JObj [(''title'', JV (JStr ''Last Week PNL'')), (''value'', JV (JStr ''80'')),
              (''change'', JV (JStr ''1%''))],
        JObj [(''title'', JV (JStr ''Monthly PNL'')), (''value'', JV (JStr ''400'')),
              (''change'', JV (JStr ''5%''))],
        JObj [(''title'', JV (JStr ''Yearly PNL'')), (''value'', JV (JStr ''1500'')),
              (''change'', JV (JStr ''9%''))]])"
  by (simp add: anonymous_request_def bearer_token_def authenticateToken_v1_def
      performance_data_v1_def overview_rows_def performance_tile_def idx_def)

end
